theory Spec2Isabelle
  imports Complex_Main "HOL-Library.Product_Lexorder" "HOL-Library.Multiset"
begin

section \<open>The input table\<close>

text \<open>
  The script reads one CSV file of daily observations, parses the column \<open>time\<close> and makes
  it the index of the table. A timestamp of daily resolution is a triple (year, month, day),
  ordered lexicographically, which is the chronological order. A cell of a temperature
  column holds a number or is missing (pandas' NaN, here \<open>None\<close>); numbers are exact
  rationals, so the model leaves floating-point rounding aside.

  The model covers the three computations of the script, in the script's order, and of
  the drawing between them the one condition under which it stops the script. Reading and
  writing files are not part of it.
\<close>

type_synonym date = "nat \<times> nat \<times> nat"

type_synonym temp = "rat option"

record cols =
  tl_mittel :: temp
  tlmin :: temp
  tlmax :: temp

type_synonym 'k frame = "('k \<times> cols) list"

type_synonym 'k series = "('k \<times> temp) list"

text \<open>
  \<open>pd.read_csv\<close> gives a temperature column the type float64 when the file has data rows,
  and the type object when it has none.
\<close>

datatype dtype = Float64 | Object

definition columns_dtype :: "(date \<times> cols) list \<Rightarrow> dtype" where
  "columns_dtype df = (if df = [] then Object else Float64)"

definition year :: "date \<Rightarrow> nat" where
  "year d = fst d"

definition month :: "date \<Rightarrow> nat" where
  "month d = fst (snd d)"

definition day :: "date \<Rightarrow> nat" where
  "day d = snd (snd d)"

definition is_leap :: "nat \<Rightarrow> bool" where
  "is_leap y = (y mod 4 = 0 \<and> (y mod 100 \<noteq> 0 \<or> y mod 400 = 0))"

definition days_in_month :: "nat \<Rightarrow> nat \<Rightarrow> nat" where
  "days_in_month y m =
     (if m = 2 then (if is_leap y then 29 else 28)
      else if m = 4 \<or> m = 6 \<or> m = 9 \<or> m = 11 then 30 else 31)"

text \<open>What \<open>pd.to_datetime\<close> accepts: a month of the calendar and a day of that month.\<close>

definition valid_date :: "date \<Rightarrow> bool" where
  "valid_date d = (1 \<le> month d \<and> month d \<le> 12 \<and> 1 \<le> day d \<and> day d \<le> days_in_month (year d) (month d))"

section \<open>Slicing a date index with partial date strings\<close>

text \<open>
  The bounds of a slice such as \<open>df["1991-01-01":"2020-12-31"]\<close> or
  \<open>df["1991-01":"2020-12"]\<close> are date strings of day or of month resolution. The lower
  bound stands for the first instant of its period, the upper bound for the last one; on
  timestamps of daily resolution the latter selects up to and including the last day.
\<close>

datatype datestr = Day nat nat nat | Month nat nat

fun lower_bound :: "datestr \<Rightarrow> date" where
  "lower_bound (Day y m d) = (y, m, d)"
| "lower_bound (Month y m) = (y, m, 1)"

fun upper_bound :: "datestr \<Rightarrow> date" where
  "upper_bound (Day y m d) = (y, m, d)"
| "upper_bound (Month y m) = (y, m, days_in_month y m)"

datatype error = KeyError | TypeError | ValueError

definition is_monotonic_increasing :: "date list \<Rightarrow> bool" where
  "is_monotonic_increasing idx = sorted idx"

definition in_bounds :: "datestr option \<Rightarrow> datestr option \<Rightarrow> date \<Rightarrow> bool" where
  "in_bounds start stop d =
     ((case start of None \<Rightarrow> True | Some s \<Rightarrow> lower_bound s \<le> d) \<and>
      (case stop of None \<Rightarrow> True | Some e \<Rightarrow> d \<le> upper_bound e))"

text \<open>
  pandas' \<open>DatetimeIndex.slice_indexer\<close> with string bounds. On an index in non-decreasing
  order the slice is the block of rows that binary search finds between the bounds: the
  rows dated from the lower to the upper bound. On any other index pandas selects the same
  rows by mask, but raises KeyError unless every bound given is itself a value of the
  index; an upper bound is the last nanosecond of its day, which no daily timestamp equals.
\<close>

definition slice_rows :: "datestr option \<Rightarrow> datestr option \<Rightarrow> (date \<times> 'v) list \<Rightarrow> error + (date \<times> 'v) list" where
  "slice_rows start stop df =
     (let in_index =
            ((case start of None \<Rightarrow> True | Some s \<Rightarrow> lower_bound s \<in> set (map fst df)) \<and>
             stop = None)
      in if is_monotonic_increasing (map fst df) \<or> in_index
         then Inr (filter (\<lambda>r. in_bounds start stop (fst r)) df)
         else Inl KeyError)"

section \<open>Grouping and aggregation\<close>

text \<open>
  \<open>groupby(key)\<close> collects the rows of each key value, the groups in ascending key order
  (pandas sorts group keys), the rows of a group in table order.
\<close>

definition groupby :: "('k \<Rightarrow> 'g::linorder) \<Rightarrow> ('k \<times> 'v) list \<Rightarrow> ('g \<times> 'v list) list" where
  "groupby key df =
     map (\<lambda>g. (g, map snd (filter (\<lambda>r. key (fst r) = g) df)))
         (sort (remdups (map (\<lambda>r. key (fst r)) df)))"

fun dropna :: "temp list \<Rightarrow> rat list" where
  "dropna [] = []"
| "dropna (None # vs) = dropna vs"
| "dropna (Some x # vs) = x # dropna vs"

text \<open>\<open>mean()\<close> skips missing values; the mean of no value is missing.\<close>

definition nanmean :: "temp list \<Rightarrow> temp" where
  "nanmean vs =
     (let xs = dropna vs
      in if xs = [] then None else Some (sum_list xs / of_nat (length xs)))"

definition mean_cols :: "cols list \<Rightarrow> cols" where
  "mean_cols vs =
     \<lparr>tl_mittel = nanmean (map tl_mittel vs),
      tlmin = nanmean (map tlmin vs),
      tlmax = nanmean (map tlmax vs)\<rparr>"

definition frame_mean :: "('g \<times> cols list) list \<Rightarrow> 'g frame" where
  "frame_mean gs = map (\<lambda>(g, vs). (g, mean_cols vs)) gs"

definition series_mean :: "('g \<times> temp list) list \<Rightarrow> 'g series" where
  "series_mean gs = map (\<lambda>(g, vs). (g, nanmean vs)) gs"

text \<open>\<open>DataFrame.dropna()\<close> drops every row with a missing cell.\<close>

definition dropna_rows :: "'k frame \<Rightarrow> 'k frame" where
  "dropna_rows fr =
     filter (\<lambda>(k, v). tl_mittel v \<noteq> None \<and> tlmin v \<noteq> None \<and> tlmax v \<noteq> None) fr"

section \<open>Phase one: climatology, anomalies, hottest years\<close>

fun sub_temp :: "temp \<Rightarrow> temp \<Rightarrow> temp" where
  "sub_temp (Some a) (Some b) = Some (a - b)"
| "sub_temp _ _ = None"

definition sub_cols :: "cols \<Rightarrow> cols \<Rightarrow> cols" where
  "sub_cols a b =
     \<lparr>tl_mittel = sub_temp (tl_mittel a) (tl_mittel b),
      tlmin = sub_temp (tlmin a) (tlmin b),
      tlmax = sub_temp (tlmax a) (tlmax b)\<rparr>"

definition nan_cols :: cols where
  "nan_cols = \<lparr>tl_mittel = None, tlmin = None, tlmax = None\<rparr>"

text \<open>
  \<open>monthly_means - clim\<close>: the left frame is indexed by (year, month), the right one by
  month; pandas aligns the two on the index level they share by name and subtracts
  cell by cell. A month without a row on the right gives missing cells. The alignment is
  an outer join, but the months on the right are those on the left (lemma
  \<open>clim_months_are_monthly_means_months\<close>), so every row of the result stems from a row on the
  left.
\<close>

definition sub_on_month :: "(nat \<times> nat) frame \<Rightarrow> nat frame \<Rightarrow> (nat \<times> nat) frame" where
  "sub_on_month mm cl =
     map (\<lambda>(k, v). (k, (case map_of cl (snd k) of None \<Rightarrow> nan_cols | Some c \<Rightarrow> sub_cols v c))) mm"

definition column :: "(cols \<Rightarrow> temp) \<Rightarrow> 'k frame \<Rightarrow> 'k series" where
  "column c fr = map (\<lambda>(k, v). (k, c v)) fr"

definition notna :: "'k \<times> temp \<Rightarrow> bool" where
  "notna kv = (snd kv \<noteq> None)"

text \<open>
  \<open>Series.nlargest(n)\<close>: the entries with a value in descending order of value, entries of
  equal value in their order of appearance (a stable sort of the negated values), then the
  entries without a value; the first \<open>n\<close> of these.
\<close>

definition nlargest :: "nat \<Rightarrow> 'k series \<Rightarrow> 'k series" where
  "nlargest n s =
     take n (sort_key (\<lambda>kv. - the (snd kv)) (filter notna s) @ filter (\<lambda>kv. \<not> notna kv) s)"

text \<open>\<open>nlargest\<close> refuses a series of type object with a TypeError.\<close>

definition nlargest_of :: "dtype \<Rightarrow> nat \<Rightarrow> 'k series \<Rightarrow> error + 'k series" where
  "nlargest_of t n s = (if t = Object then Inl TypeError else Inr (nlargest n s))"

record phase_one_result =
  yearly_means :: "nat frame"
  clim :: "nat frame"
  monthly_means :: "(nat \<times> nat) frame"
  anom :: "(nat \<times> nat) frame"
  mean_anom_per_year :: "nat series"
  hottest_years :: "nat list"

definition phase_one :: "date frame \<Rightarrow> error + phase_one_result" where
  "phase_one df =
     (case slice_rows (Some (Day 1991 1 1)) (Some (Day 2020 12 31)) df of
        Inl e \<Rightarrow> Inl e
      | Inr df_date_restricted \<Rightarrow>
          (case slice_rows (Some (Month 1991 1)) (Some (Month 2020 12)) df_date_restricted of
             Inl e \<Rightarrow> Inl e
           | Inr df_clim \<Rightarrow>
               (let ym = dropna_rows (frame_mean (groupby year df_date_restricted));
                    cl = frame_mean (groupby month df_clim);
                    mm = frame_mean (groupby (\<lambda>d. (year d, month d)) df_date_restricted);
                    an = sub_on_month mm cl;
                    series = column tl_mittel an;
                    mapy = series_mean (groupby fst series)
                in (case nlargest_of (columns_dtype df) 5 mapy of
                      Inl e \<Rightarrow> Inl e
                    | Inr largest \<Rightarrow>
                        Inr \<lparr>yearly_means = ym, clim = cl, monthly_means = mm, anom = an,
                              mean_anom_per_year = mapy,
                              hottest_years = map fst largest\<rparr>))))"

section \<open>Phase two: order statistics per calendar month\<close>

text \<open>
  \<open>median\<close> skips missing values and takes the middle value of the sorted rest, or the
  mean of the two middle values.
\<close>

definition median :: "temp list \<Rightarrow> temp" where
  "median vs =
     (let xs = sort (dropna vs); n = length xs
      in if n = 0 then None
         else if odd n then Some (xs ! (n div 2))
         else Some ((xs ! (n div 2 - 1) + xs ! (n div 2)) / 2))"

text \<open>
  \<open>x.quantile(q)\<close> skips missing values and interpolates linearly in the sorted rest, at
  the position \<open>q * (n - 1)\<close>: between the order statistic below the position and the next
  one, by the fractional part of the position.
\<close>

definition linear_interpolation :: "rat list \<Rightarrow> rat \<Rightarrow> rat" where
  "linear_interpolation xs pos =
     (let lo = nat \<lfloor>pos\<rfloor>;
          hi = min (lo + 1) (length xs - 1);
          gamma = pos - of_nat lo
      in xs ! lo + (xs ! hi - xs ! lo) * gamma)"

definition quantile :: "rat \<Rightarrow> temp list \<Rightarrow> temp" where
  "quantile q vs =
     (let xs = sort (dropna vs); n = length xs
      in if n = 0 then None else Some (linear_interpolation xs (q * of_nat (n - 1))))"

text \<open>The five aggregations the script lists for every column, in the script's order.\<close>

definition agg_funcs :: "(temp list \<Rightarrow> temp) list" where
  "agg_funcs = [median, quantile (1/4), quantile (3/4), quantile (1/10), quantile (9/10)]"

definition agg_group :: "cols list \<Rightarrow> temp list" where
  "agg_group vs =
     map (\<lambda>f. f (map tl_mittel vs)) agg_funcs @
     map (\<lambda>f. f (map tlmin vs)) agg_funcs @
     map (\<lambda>f. f (map tlmax vs)) agg_funcs"

text \<open>The column labels assigned afterwards, by position: \<open>MultiIndex.from_product\<close>.\<close>

definition stat_labels :: "(string \<times> string) list" where
  "stat_labels =
     List.product [''tl_mittel'', ''tlmin'', ''tlmax'']
                  [''median'', ''p25'', ''p75'', ''p10'', ''p90'']"

type_synonym stats_table = "(nat \<times> ((string \<times> string) \<times> temp) list) list"

definition monthly_stats :: "date frame \<Rightarrow> stats_table" where
  "monthly_stats df_custom_years =
     map (\<lambda>(m, vs). (m, zip stat_labels (agg_group vs))) (groupby month df_custom_years)"

text \<open>
  The custom year set is the rows of 2002 followed by the rows from 2023-01-01 on
  (\<open>pd.concat\<close> of the two slices). The script gets here once phase one is through.
\<close>

definition phase_two :: "date frame \<Rightarrow> error + stats_table" where
  "phase_two df =
     (case slice_rows (Some (Day 2002 1 1)) (Some (Day 2002 12 31)) df of
        Inl e \<Rightarrow> Inl e
      | Inr df_2002 \<Rightarrow>
          (case slice_rows (Some (Day 2023 1 1)) None df of
             Inl e \<Rightarrow> Inl e
           | Inr df_2023 \<Rightarrow> Inr (monthly_stats (df_2002 @ df_2023))))"

section \<open>Phase three: hot days and tropical nights\<close>

text \<open>\<open>(x >= t).sum()\<close>: the number of cells at or above \<open>t\<close>; a missing cell compares false.\<close>

definition count_ge :: "rat \<Rightarrow> temp list \<Rightarrow> nat" where
  "count_ge t vs = length (filter (\<lambda>v. case v of None \<Rightarrow> False | Some x \<Rightarrow> t \<le> x) vs)"

type_synonym counts_table = "(nat \<times> (string \<times> nat) list) list"

definition annual_stats :: "date frame \<Rightarrow> counts_table" where
  "annual_stats df =
     map (\<lambda>(y, vs). (y, zip [''hot_days'', ''tropical_nights'']
                            [count_ge 30 (map tlmax vs), count_ge 20 (map tlmin vs)]))
         (groupby year df)"

section \<open>The script\<close>

text \<open>
  The second figure draws the columns of \<open>monthly_stats\<close> against the twelve months
  \<open>range(1, 13)\<close>. A table that does not have twelve rows cannot be drawn against them:
  matplotlib raises ValueError.
\<close>

definition plot_monthly_stats :: "stats_table \<Rightarrow> error + unit" where
  "plot_monthly_stats st = (if length st = 12 then Inr () else Inl ValueError)"

text \<open>
  The script runs the phases one after the other and stops at the first error:
  \<open>monthly_stats\<close> is computed once phase one is through, the threshold counts once the
  second figure is drawn.
\<close>

definition script_monthly_stats :: "date frame \<Rightarrow> error + stats_table" where
  "script_monthly_stats df =
     (case phase_one df of
        Inl e \<Rightarrow> Inl e
      | Inr r1 \<Rightarrow> phase_two df)"

definition script :: "date frame \<Rightarrow> error + (phase_one_result \<times> stats_table \<times> counts_table)" where
  "script df =
     (case phase_one df of
        Inl e \<Rightarrow> Inl e
      | Inr r1 \<Rightarrow>
          (case phase_two df of
             Inl e \<Rightarrow> Inl e
           | Inr r2 \<Rightarrow>
               (case plot_monthly_stats r2 of
                  Inl e \<Rightarrow> Inl e
                | Inr u \<Rightarrow> Inr (r1, r2, annual_stats df))))"

section \<open>Date ranges the statements refer to\<close>

text \<open>The climate normal period 1991-01-01 to 2020-12-31, both days included.\<close>

definition in_baseline :: "date \<Rightarrow> bool" where
  "in_baseline d = ((1991, 1, 1) \<le> d \<and> d \<le> (2020, 12, 31))"

text \<open>The year 2002 together with every day from 2023-01-01 on.\<close>

definition in_custom_years :: "date \<Rightarrow> bool" where
  "in_custom_years d = (((2002, 1, 1) \<le> d \<and> d \<le> (2002, 12, 31)) \<or> (2023, 1, 1) \<le> d)"

definition baseline_rows :: "date frame \<Rightarrow> date frame" where
  "baseline_rows df = filter (\<lambda>x. in_baseline (fst x)) df"

definition custom_year_rows :: "date frame \<Rightarrow> date frame" where
  "custom_year_rows df = filter (\<lambda>x. in_custom_years (fst x)) df"

text \<open>The ranking of scores behind \<open>nlargest\<close>: a missing score ranks lowest.\<close>

definition not_above :: "temp \<Rightarrow> temp \<Rightarrow> bool" where
  "not_above a b = (case a of None \<Rightarrow> True | Some x \<Rightarrow> (case b of None \<Rightarrow> False | Some y \<Rightarrow> x \<le> y))"

section \<open>Sample tables\<close>

definition sample_table :: "date frame" where
  "sample_table =
     [((1990, 12, 31), \<lparr>tl_mittel = Some 1, tlmin = Some 0, tlmax = Some 2\<rparr>),
      ((1991, 1, 1), \<lparr>tl_mittel = Some 2, tlmin = Some 1, tlmax = Some 3\<rparr>),
      ((1991, 1, 2), \<lparr>tl_mittel = Some 4, tlmin = Some 1, tlmax = Some 30\<rparr>),
      ((1991, 2, 1), \<lparr>tl_mittel = None, tlmin = Some 20, tlmax = None\<rparr>),
      ((1992, 1, 5), \<lparr>tl_mittel = Some 6, tlmin = Some 2, tlmax = Some 31\<rparr>),
      ((2002, 1, 1), \<lparr>tl_mittel = Some 1, tlmin = Some 2, tlmax = Some 3\<rparr>),
      ((2002, 1, 2), \<lparr>tl_mittel = Some 5, tlmin = Some 6, tlmax = Some 7\<rparr>),
      ((2002, 1, 3), \<lparr>tl_mittel = Some 2, tlmin = None, tlmax = Some 4\<rparr>),
      ((2021, 3, 3), \<lparr>tl_mittel = Some 9, tlmin = Some 9, tlmax = Some 9\<rparr>),
      ((2023, 1, 1), \<lparr>tl_mittel = Some 10, tlmin = Some 11, tlmax = Some 12\<rparr>)]"

text \<open>One July day in each of six baseline years.\<close>

definition six_year_table :: "date frame" where
  "six_year_table =
     [((1991, 7, 1), \<lparr>tl_mittel = Some 3, tlmin = Some 1, tlmax = Some 5\<rparr>),
      ((1992, 7, 1), \<lparr>tl_mittel = Some 9, tlmin = Some 1, tlmax = Some 5\<rparr>),
      ((1993, 7, 1), \<lparr>tl_mittel = Some 1, tlmin = Some 1, tlmax = Some 5\<rparr>),
      ((1994, 7, 1), \<lparr>tl_mittel = Some 7, tlmin = Some 1, tlmax = Some 5\<rparr>),
      ((1995, 7, 1), \<lparr>tl_mittel = Some 5, tlmin = Some 1, tlmax = Some 5\<rparr>),
      ((1996, 7, 1), \<lparr>tl_mittel = Some 8, tlmin = Some 1, tlmax = Some 5\<rparr>)]"

text \<open>Four January days of the custom year set, their values not in ascending order.\<close>

definition january_table :: "date frame" where
  "january_table =
     [((2002, 1, 1), \<lparr>tl_mittel = Some 9, tlmin = Some 4, tlmax = Some 12\<rparr>),
      ((2002, 1, 2), \<lparr>tl_mittel = Some 1, tlmin = Some (- 3), tlmax = Some 5\<rparr>),
      ((2002, 1, 3), \<lparr>tl_mittel = Some 5, tlmin = None, tlmax = Some 8\<rparr>),
      ((2023, 1, 4), \<lparr>tl_mittel = Some 2, tlmin = Some 1, tlmax = Some 3\<rparr>)]"

text \<open>One day in each calendar month of 2023, after the baseline window.\<close>

definition twelve_month_table :: "date frame" where
  "twelve_month_table =
     [((2023, 1, 15), \<lparr>tl_mittel = Some 1, tlmin = Some (- 3), tlmax = Some 4\<rparr>),
      ((2023, 2, 15), \<lparr>tl_mittel = Some 3, tlmin = Some (- 1), tlmax = Some 8\<rparr>),
      ((2023, 3, 15), \<lparr>tl_mittel = Some 7, tlmin = Some 2, tlmax = Some 13\<rparr>),
      ((2023, 4, 15), \<lparr>tl_mittel = Some 11, tlmin = Some 5, tlmax = Some 17\<rparr>),
      ((2023, 5, 15), \<lparr>tl_mittel = Some 16, tlmin = Some 10, tlmax = Some 22\<rparr>),
      ((2023, 6, 15), \<lparr>tl_mittel = Some 20, tlmin = Some 14, tlmax = Some 27\<rparr>),
      ((2023, 7, 15), \<lparr>tl_mittel = Some 25, tlmin = Some 20, tlmax = Some 33\<rparr>),
      ((2023, 8, 15), \<lparr>tl_mittel = Some 23, tlmin = Some 17, tlmax = Some 30\<rparr>),
      ((2023, 9, 15), \<lparr>tl_mittel = Some 17, tlmin = Some 11, tlmax = Some 24\<rparr>),
      ((2023, 10, 15), \<lparr>tl_mittel = Some 12, tlmin = Some 7, tlmax = Some 18\<rparr>),
      ((2023, 11, 15), \<lparr>tl_mittel = Some 6, tlmin = Some 2, tlmax = Some 10\<rparr>),
      ((2023, 12, 15), \<lparr>tl_mittel = Some 2, tlmin = Some (- 2), tlmax = Some 5\<rparr>)]"

text \<open>
  The count that "rows exceeding the threshold" describes: cells strictly above \<open>t\<close>.
\<close>

definition count_exceeding :: "rat \<Rightarrow> temp list \<Rightarrow> nat" where
  "count_exceeding t vs = length (filter (\<lambda>v. case v of None \<Rightarrow> False | Some x \<Rightarrow> t < x) vs)"

text \<open>
  The comparison \<open><=\<close> on cells: false as soon as one side is missing, as every
  comparison with NaN is.
\<close>

definition le_temp :: "temp \<Rightarrow> temp \<Rightarrow> bool" where
  "le_temp a b = (case a of None \<Rightarrow> False | Some x \<Rightarrow> (case b of None \<Rightarrow> False | Some y \<Rightarrow> x \<le> y))"

section \<open>Facts about slicing and grouping\<close>

lemma slice_rows_Inr:
  "slice_rows start stop df = Inr r \<Longrightarrow> r = filter (\<lambda>x. in_bounds start stop (fst x)) df"
  by (auto simp: slice_rows_def Let_def split: if_splits)

lemma slice_rows_sorted:
  "sorted (map fst df) \<Longrightarrow> slice_rows start stop df = Inr (filter (\<lambda>x. in_bounds start stop (fst x)) df)"
  by (simp add: slice_rows_def is_monotonic_increasing_def)

lemma slice_rows_stop_iff:
  "(\<exists>r. slice_rows start (Some e) df = Inr r) \<longleftrightarrow> sorted (map fst df)"
  by (simp add: slice_rows_def is_monotonic_increasing_def)

lemma slice_rows_unsorted:
  "\<not> sorted (map fst df) \<Longrightarrow> slice_rows start (Some e) df = Inl KeyError"
  by (simp add: slice_rows_def is_monotonic_increasing_def)

lemma in_bounds_baseline_day:
  "in_bounds (Some (Day 1991 1 1)) (Some (Day 2020 12 31)) d = in_baseline d"
  by (simp add: in_bounds_def in_baseline_def)

lemma in_bounds_baseline_month:
  "in_bounds (Some (Month 1991 1)) (Some (Month 2020 12)) d = in_baseline d"
  by (simp add: in_bounds_def in_baseline_def days_in_month_def)

lemma map_of_groupby:
  "map_of (groupby key df) g =
     (if g \<in> (\<lambda>r. key (fst r)) ` set df
      then Some (map snd (filter (\<lambda>r. key (fst r) = g) df)) else None)"
  by (simp add: groupby_def map_of_map_restrict restrict_map_def)

lemma keys_groupby: "set (map fst (groupby key df)) = (\<lambda>r. key (fst r)) ` set df"
  by (simp add: groupby_def comp_def)

lemma map_fst_groupby: "map fst (groupby key df) = sort (remdups (map (\<lambda>r. key (fst r)) df))"
  by (simp add: groupby_def comp_def)

lemma distinct_keys_groupby: "distinct (map fst (groupby key df))"
  by (simp add: map_fst_groupby)



lemma map_of_series_mean: "map_of (series_mean gs) g = map_option nanmean (map_of gs g)"
  by (simp add: series_mean_def map_of_map)

lemma phase_one_Inr:
  assumes "phase_one df = Inr r"
  shows "sorted (map fst df)"
    and "clim r = frame_mean (groupby month (filter (\<lambda>x. in_baseline (fst x)) df))"
    and "monthly_means r = frame_mean (groupby (\<lambda>d. (year d, month d)) (filter (\<lambda>x. in_baseline (fst x)) df))"
    and "yearly_means r = dropna_rows (frame_mean (groupby year (filter (\<lambda>x. in_baseline (fst x)) df)))"
    and "anom r = sub_on_month (monthly_means r) (clim r)"
    and "mean_anom_per_year r = series_mean (groupby fst (column tl_mittel (anom r)))"
    and "hottest_years r = map fst (nlargest 5 (mean_anom_per_year r))"
    and "df \<noteq> []"
proof -
  from assms obtain a b where a: "slice_rows (Some (Day 1991 1 1)) (Some (Day 2020 12 31)) df = Inr a"
    and b: "slice_rows (Some (Month 1991 1)) (Some (Month 2020 12)) a = Inr b"
    by (auto simp: phase_one_def split: sum.splits)
  from a show "sorted (map fst df)" using slice_rows_stop_iff by blast
  have a': "a = filter (\<lambda>x. in_baseline (fst x)) df"
    using slice_rows_Inr[OF a] unfolding in_bounds_baseline_day .
  have b': "b = a"
    using slice_rows_Inr[OF b] unfolding in_bounds_baseline_month by (simp add: a')
  let ?mapy = "series_mean (groupby fst (column tl_mittel (sub_on_month (frame_mean (groupby (\<lambda>d. (year d, month d)) a)) (frame_mean (groupby month a)))))"
  from assms have c: "(case nlargest_of (columns_dtype df) 5 ?mapy of
         Inl e \<Rightarrow> Inl e
       | Inr largest \<Rightarrow> Inr \<lparr>yearly_means = dropna_rows (frame_mean (groupby year a)),
           clim = frame_mean (groupby month a),
           monthly_means = frame_mean (groupby (\<lambda>d. (year d, month d)) a),
           anom = sub_on_month (frame_mean (groupby (\<lambda>d. (year d, month d)) a)) (frame_mean (groupby month a)),
           mean_anom_per_year = ?mapy,
           hottest_years = map fst largest\<rparr>) = Inr r"
    unfolding phase_one_def a sum.case b Let_def b' .
  then show ne: "df \<noteq> []"
    by (auto simp: nlargest_of_def columns_dtype_def split: if_splits)
  then have "nlargest_of (columns_dtype df) 5 ?mapy = Inr (nlargest 5 ?mapy)"
    by (simp add: nlargest_of_def columns_dtype_def)
  with c have r: "r = \<lparr>yearly_means = dropna_rows (frame_mean (groupby year a)),
           clim = frame_mean (groupby month a),
           monthly_means = frame_mean (groupby (\<lambda>d. (year d, month d)) a),
           anom = sub_on_month (frame_mean (groupby (\<lambda>d. (year d, month d)) a)) (frame_mean (groupby month a)),
           mean_anom_per_year = ?mapy,
           hottest_years = map fst (nlargest 5 ?mapy)\<rparr>"
    by simp
  show "clim r = frame_mean (groupby month (filter (\<lambda>x. in_baseline (fst x)) df))"
    by (simp add: r a')
  show "monthly_means r = frame_mean (groupby (\<lambda>d. (year d, month d)) (filter (\<lambda>x. in_baseline (fst x)) df))"
    by (simp add: r a')
  show "yearly_means r = dropna_rows (frame_mean (groupby year (filter (\<lambda>x. in_baseline (fst x)) df)))"
    by (simp add: r a')
  show "anom r = sub_on_month (monthly_means r) (clim r)"
    by (simp add: r)
  show "mean_anom_per_year r = series_mean (groupby fst (column tl_mittel (anom r)))"
    by (simp add: r)
  show "hottest_years r = map fst (nlargest 5 (mean_anom_per_year r))"
    by (simp add: r)
qed

lemma phase_one_sorted:
  assumes "sorted (map fst df)" and "df \<noteq> []"
  shows "\<exists>r. phase_one df = Inr r"
proof -
  have "sorted (map fst (filter (\<lambda>x. in_bounds (Some (Day 1991 1 1)) (Some (Day 2020 12 31)) (fst x)) df))"
    using assms(1) by (rule sorted_filter)
  then show ?thesis
    unfolding phase_one_def slice_rows_sorted[OF assms(1)] sum.case
    using assms(2) by (simp add: slice_rows_sorted Let_def nlargest_of_def columns_dtype_def)
qed

lemma phase_one_unsorted: "\<not> sorted (map fst df) \<Longrightarrow> phase_one df = Inl KeyError"
  unfolding phase_one_def by (simp add: slice_rows_unsorted)

lemma phase_one_empty: "phase_one [] = Inl TypeError"
  unfolding phase_one_def
  by (simp add: slice_rows_def is_monotonic_increasing_def nlargest_of_def columns_dtype_def Let_def)

text \<open>The definitions that a run on a concrete table unfolds.\<close>

lemmas eval_defs = groupby_def frame_mean_def series_mean_def mean_cols_def nanmean_def
  year_def month_def dropna_rows_def sub_on_month_def sub_cols_def nan_cols_def column_def
  nlargest_def notna_def

section \<open>Phase one on the sample table\<close>

lemma sorted_sample_table: "sorted (map fst sample_table)"
  by (simp add: sample_table_def)

lemma sample_table_rows: "sample_table \<noteq> []"
  by (simp add: sample_table_def)

lemma six_year_table_rows: "sorted (map fst six_year_table)" "six_year_table \<noteq> []"
  by (simp_all add: six_year_table_def)

lemma phase_one_sample_table:
  "phase_one sample_table = Inr
     \<lparr>yearly_means =
        [(1991, \<lparr>tl_mittel = Some 3, tlmin = Some (22 / 3), tlmax = Some (33 / 2)\<rparr>),
         (1992, \<lparr>tl_mittel = Some 6, tlmin = Some 2, tlmax = Some 31\<rparr>),
         (2002, \<lparr>tl_mittel = Some (8 / 3), tlmin = Some 4, tlmax = Some (14 / 3)\<rparr>)],
      clim =
        [(1, \<lparr>tl_mittel = Some (10 / 3), tlmin = Some (12 / 5), tlmax = Some 13\<rparr>),
         (2, \<lparr>tl_mittel = None, tlmin = Some 20, tlmax = None\<rparr>)],
      monthly_means =
        [((1991, 1), \<lparr>tl_mittel = Some 3, tlmin = Some 1, tlmax = Some (33 / 2)\<rparr>),
         ((1991, 2), \<lparr>tl_mittel = None, tlmin = Some 20, tlmax = None\<rparr>),
         ((1992, 1), \<lparr>tl_mittel = Some 6, tlmin = Some 2, tlmax = Some 31\<rparr>),
         ((2002, 1), \<lparr>tl_mittel = Some (8 / 3), tlmin = Some 4, tlmax = Some (14 / 3)\<rparr>)],
      anom =
        [((1991, 1), \<lparr>tl_mittel = Some (- (1 / 3)), tlmin = Some (- (7 / 5)), tlmax = Some (7 / 2)\<rparr>),
         ((1991, 2), \<lparr>tl_mittel = None, tlmin = Some 0, tlmax = None\<rparr>),
         ((1992, 1), \<lparr>tl_mittel = Some (8 / 3), tlmin = Some (- (2 / 5)), tlmax = Some 18\<rparr>),
         ((2002, 1), \<lparr>tl_mittel = Some (- (2 / 3)), tlmin = Some (8 / 5), tlmax = Some (- (25 / 3))\<rparr>)],
      mean_anom_per_year = [(1991, Some (- (1 / 3))), (1992, Some (8 / 3)), (2002, Some (- (2 / 3)))],
      hottest_years = [1992, 1991, 2002]\<rparr>"
proof -
  obtain r where r: "phase_one sample_table = Inr r"
    using phase_one_sorted[OF sorted_sample_table sample_table_rows] by blast
  note f = phase_one_Inr[OF r]
  have b: "filter (\<lambda>x. in_baseline (fst x)) sample_table = butlast (butlast (tl sample_table))"
    by (simp add: sample_table_def in_baseline_def)
  have ym: "yearly_means r =
        [(1991, \<lparr>tl_mittel = Some 3, tlmin = Some (22 / 3), tlmax = Some (33 / 2)\<rparr>),
         (1992, \<lparr>tl_mittel = Some 6, tlmin = Some 2, tlmax = Some 31\<rparr>),
         (2002, \<lparr>tl_mittel = Some (8 / 3), tlmin = Some 4, tlmax = Some (14 / 3)\<rparr>)]"
    unfolding f(4) b by (simp add: sample_table_def eval_defs del: not_None_eq)
  have cl: "clim r =
        [(1, \<lparr>tl_mittel = Some (10 / 3), tlmin = Some (12 / 5), tlmax = Some 13\<rparr>),
         (2, \<lparr>tl_mittel = None, tlmin = Some 20, tlmax = None\<rparr>)]"
    unfolding f(2) b by (simp add: sample_table_def eval_defs)
  have mm: "monthly_means r =
        [((1991, 1), \<lparr>tl_mittel = Some 3, tlmin = Some 1, tlmax = Some (33 / 2)\<rparr>),
         ((1991, 2), \<lparr>tl_mittel = None, tlmin = Some 20, tlmax = None\<rparr>),
         ((1992, 1), \<lparr>tl_mittel = Some 6, tlmin = Some 2, tlmax = Some 31\<rparr>),
         ((2002, 1), \<lparr>tl_mittel = Some (8 / 3), tlmin = Some 4, tlmax = Some (14 / 3)\<rparr>)]"
    unfolding f(3) b by (simp add: sample_table_def eval_defs)
  have an: "anom r =
        [((1991, 1), \<lparr>tl_mittel = Some (- (1 / 3)), tlmin = Some (- (7 / 5)), tlmax = Some (7 / 2)\<rparr>),
         ((1991, 2), \<lparr>tl_mittel = None, tlmin = Some 0, tlmax = None\<rparr>),
         ((1992, 1), \<lparr>tl_mittel = Some (8 / 3), tlmin = Some (- (2 / 5)), tlmax = Some 18\<rparr>),
         ((2002, 1), \<lparr>tl_mittel = Some (- (2 / 3)), tlmin = Some (8 / 5), tlmax = Some (- (25 / 3))\<rparr>)]"
    unfolding f(5) cl mm by (simp add: eval_defs)
  have ma: "mean_anom_per_year r = [(1991, Some (- (1 / 3))), (1992, Some (8 / 3)), (2002, Some (- (2 / 3)))]"
    unfolding f(6) an by (simp add: eval_defs)
  have hy: "hottest_years r = [1992, 1991, 2002]"
    unfolding f(7) ma by (simp add: eval_defs)
  show ?thesis
    unfolding r using ym cl mm an ma hy by (cases r) simp
qed

section \<open>Phase one: anomalies and climatology\<close>











section \<open>Phase one: dependence on the baseline window\<close>

lemma in_baseline_year: "in_baseline d \<Longrightarrow> 1991 \<le> year d \<and> year d \<le> 2020"
  by (cases d) (auto simp: in_baseline_def year_def)

lemma keys_frame_mean: "map fst (frame_mean gs) = map fst gs"
  by (simp add: frame_mean_def case_prod_unfold comp_def)

lemma keys_series_mean: "map fst (series_mean gs) = map fst gs"
  by (simp add: series_mean_def case_prod_unfold comp_def)

lemma keys_sub_on_month: "map fst (sub_on_month mm cl) = map fst mm"
  by (simp add: sub_on_month_def case_prod_unfold comp_def)

lemma keys_column: "map fst (column c fr) = map fst fr"
  by (simp add: column_def case_prod_unfold comp_def)

lemma clim_months_are_monthly_means_months:
  assumes "phase_one df = Inr r"
  shows "set (map fst (clim r)) = snd ` set (map fst (monthly_means r))"
proof -
  have "set (map fst (clim r)) = (\<lambda>x. month (fst x)) ` set (filter (\<lambda>x. in_baseline (fst x)) df)"
    unfolding phase_one_Inr(2)[OF assms] keys_frame_mean by (rule keys_groupby)
  moreover have "set (map fst (monthly_means r)) =
      (\<lambda>x. (year (fst x), month (fst x))) ` set (filter (\<lambda>x. in_baseline (fst x)) df)"
    unfolding phase_one_Inr(3)[OF assms] keys_frame_mean by (rule keys_groupby)
  ultimately show ?thesis
    by (simp add: image_image)
qed

text \<open>On valid dates the two date ranges are ranges of calendar years.\<close>

lemma in_baseline_valid_date:
  "valid_date d \<Longrightarrow> in_baseline d \<longleftrightarrow> 1991 \<le> year d \<and> year d \<le> 2020"
  by (cases d) (auto simp: in_baseline_def valid_date_def year_def month_def day_def days_in_month_def split: if_splits)

lemma in_custom_years_valid_date:
  "valid_date d \<Longrightarrow> in_custom_years d \<longleftrightarrow> year d = 2002 \<or> 2023 \<le> year d"
  by (cases d) (auto simp: in_custom_years_def valid_date_def year_def month_def day_def days_in_month_def split: if_splits)

lemma set_nlargest: "set (nlargest n s) \<subseteq> set s"
proof -
  have "set (nlargest n s) \<subseteq> set (sort_key (\<lambda>kv. - the (snd kv)) (filter notna s) @ filter (\<lambda>kv. \<not> notna kv) s)"
    unfolding nlargest_def by (rule set_take_subset)
  also have "\<dots> \<subseteq> set s" by auto
  finally show ?thesis .
qed

lemma years_of_mean_anom_per_year:
  assumes "phase_one df = Inr r"
  shows "fst ` set (mean_anom_per_year r) = (\<lambda>x. year (fst x)) ` set (filter (\<lambda>x. in_baseline (fst x)) df)"
proof -
  have "fst ` set (mean_anom_per_year r) = set (map fst (mean_anom_per_year r))" by simp
  also have "\<dots> = fst ` set (map fst (monthly_means r))"
  proof -
    have "map fst (column tl_mittel (anom r)) = map fst (monthly_means r)"
      by (simp add: keys_column phase_one_Inr(5)[OF assms] keys_sub_on_month)
    then have "fst ` set (column tl_mittel (anom r)) = set (map fst (monthly_means r))"
      by (metis set_map)
    then show ?thesis
      unfolding phase_one_Inr(6)[OF assms] keys_series_mean keys_groupby
      by (simp add: image_image[symmetric])
  qed
  also have "\<dots> = (\<lambda>x. year (fst x)) ` set (filter (\<lambda>x. in_baseline (fst x)) df)"
    unfolding phase_one_Inr(3)[OF assms] keys_frame_mean keys_groupby
    by (simp add: image_image)
  finally show ?thesis .
qed

lemma hottest_years_subset:
  assumes "phase_one df = Inr r"
  shows "set (hottest_years r) \<subseteq> fst ` set (mean_anom_per_year r)"
  unfolding phase_one_Inr(7)[OF assms] using set_nlargest[of 5 "mean_anom_per_year r"] by auto

lemma phase_one_result_eqI:
  fixes r1 r2 :: phase_one_result
  assumes "yearly_means r1 = yearly_means r2" "clim r1 = clim r2" "monthly_means r1 = monthly_means r2"
    "anom r1 = anom r2" "mean_anom_per_year r1 = mean_anom_per_year r2" "hottest_years r1 = hottest_years r2"
  shows "r1 = r2"
  using assms by (cases r1, cases r2) simp

lemma phase_one_baseline_only:
  assumes "filter (\<lambda>x. in_baseline (fst x)) df1 = filter (\<lambda>x. in_baseline (fst x)) df2"
    and "phase_one df1 = Inr r1" and "phase_one df2 = Inr r2"
  shows "r1 = r2"
proof (rule phase_one_result_eqI)
  show ym: "yearly_means r1 = yearly_means r2"
    by (simp add: phase_one_Inr(4)[OF assms(2)] phase_one_Inr(4)[OF assms(3)] assms(1))
  show cl: "clim r1 = clim r2"
    by (simp add: phase_one_Inr(2)[OF assms(2)] phase_one_Inr(2)[OF assms(3)] assms(1))
  show mm: "monthly_means r1 = monthly_means r2"
    by (simp add: phase_one_Inr(3)[OF assms(2)] phase_one_Inr(3)[OF assms(3)] assms(1))
  show an: "anom r1 = anom r2"
    by (simp add: phase_one_Inr(5)[OF assms(2)] phase_one_Inr(5)[OF assms(3)] cl mm)
  show ma: "mean_anom_per_year r1 = mean_anom_per_year r2"
    by (simp add: phase_one_Inr(6)[OF assms(2)] phase_one_Inr(6)[OF assms(3)] an)
  show "hottest_years r1 = hottest_years r2"
    by (simp add: phase_one_Inr(7)[OF assms(2)] phase_one_Inr(7)[OF assms(3)] ma)
qed

lemma phase_one_single_row:
  assumes "in_baseline d"
  shows "map_sum id hottest_years (phase_one [(d, v)]) = Inr [year d]"
proof -
  obtain r where r: "phase_one [(d, v)] = Inr r"
    using phase_one_sorted[of "[(d, v)]"] by auto
  note f = phase_one_Inr[OF r]
  have "map fst (mean_anom_per_year r) = [year d]"
    unfolding f(6) keys_series_mean map_fst_groupby keys_column[symmetric]
    by (simp add: f(5) column_def sub_on_month_def f(3) frame_mean_def groupby_def assms)
  then obtain s where s: "mean_anom_per_year r = [(year d, s)]"
    by (cases "mean_anom_per_year r") auto
  have "hottest_years r = [year d]"
    unfolding f(7) s by (cases s) (simp_all add: nlargest_def notna_def)
  then show ?thesis
    unfolding r by simp
qed

lemma phase_one_no_baseline_row:
  assumes "\<not> in_baseline d"
  shows "map_sum id hottest_years (phase_one [(d, v)]) = Inr []"
proof -
  obtain r where r: "phase_one [(d, v)] = Inr r"
    using phase_one_sorted[of "[(d, v)]"] by auto
  note f = phase_one_Inr[OF r]
  have "hottest_years r = []"
    unfolding f(7) f(6) f(5) f(3) f(2)
    by (simp add: assms groupby_def frame_mean_def sub_on_month_def column_def series_mean_def nlargest_def)
  then show ?thesis
    unfolding r by simp
qed

text \<open>
  C7, as stated, fails in two ways. A row outside the baseline window that stands out of
  date order makes the first slice raise KeyError, although the rows in the window are
  the same; and a table without rows makes \<open>nlargest\<close> raise TypeError, while a table whose
  only row lies outside the window runs through.
\<close>

theorem phase_one_rows_outside_baseline_counterexample:
  "baseline_rows [((2002, 1, 1), \<lparr>tl_mittel = Some 3, tlmin = Some 1, tlmax = Some 5\<rparr>)] =
   baseline_rows [((2002, 1, 1), \<lparr>tl_mittel = Some 3, tlmin = Some 1, tlmax = Some 5\<rparr>),
                  ((1985, 3, 9), \<lparr>tl_mittel = Some 7, tlmin = Some 2, tlmax = Some 11\<rparr>)] \<and>
   map_sum id hottest_years
     (phase_one [((2002, 1, 1), \<lparr>tl_mittel = Some 3, tlmin = Some 1, tlmax = Some 5\<rparr>)]) = Inr [2002] \<and>
   phase_one [((2002, 1, 1), \<lparr>tl_mittel = Some 3, tlmin = Some 1, tlmax = Some 5\<rparr>),
              ((1985, 3, 9), \<lparr>tl_mittel = Some 7, tlmin = Some 2, tlmax = Some 11\<rparr>)] = Inl KeyError \<and>
   baseline_rows [] = baseline_rows [((1950, 6, 1), \<lparr>tl_mittel = Some 1, tlmin = Some 0, tlmax = Some 2\<rparr>)] \<and>
   phase_one [] = Inl TypeError \<and>
   map_sum id hottest_years
     (phase_one [((1950, 6, 1), \<lparr>tl_mittel = Some 1, tlmin = Some 0, tlmax = Some 2\<rparr>)]) = Inr []"
proof -
  have 1: "baseline_rows [((2002, 1, 1), \<lparr>tl_mittel = Some 3, tlmin = Some 1, tlmax = Some 5\<rparr>)] =
   baseline_rows [((2002, 1, 1), \<lparr>tl_mittel = Some 3, tlmin = Some 1, tlmax = Some 5\<rparr>),
                  ((1985, 3, 9), \<lparr>tl_mittel = Some 7, tlmin = Some 2, tlmax = Some 11\<rparr>)]"
    by (simp add: baseline_rows_def in_baseline_def)
  have "in_baseline (2002, 1, 1)" by (simp add: in_baseline_def)
  then have 2: "map_sum id hottest_years
     (phase_one [((2002, 1, 1), \<lparr>tl_mittel = Some 3, tlmin = Some 1, tlmax = Some 5\<rparr>)]) = Inr [year (2002, 1, 1)]"
    by (rule phase_one_single_row)
  have 3: "phase_one [((2002, 1, 1), \<lparr>tl_mittel = Some 3, tlmin = Some 1, tlmax = Some 5\<rparr>),
              ((1985, 3, 9), \<lparr>tl_mittel = Some 7, tlmin = Some 2, tlmax = Some 11\<rparr>)] = Inl KeyError"
    by (rule phase_one_unsorted) simp
  have 4: "baseline_rows [] = baseline_rows [((1950, 6, 1), \<lparr>tl_mittel = Some 1, tlmin = Some 0, tlmax = Some 2\<rparr>)]"
    by (simp add: baseline_rows_def in_baseline_def)
  have "\<not> in_baseline (1950, 6, 1)" by (simp add: in_baseline_def)
  then have 5: "map_sum id hottest_years
     (phase_one [((1950, 6, 1), \<lparr>tl_mittel = Some 1, tlmin = Some 0, tlmax = Some 2\<rparr>)]) = Inr []"
    by (rule phase_one_no_baseline_row)
  have y: "year (2002, 1, 1) = 2002" by (simp add: year_def)
  from 1 2 3 4 5 phase_one_empty show ?thesis
    unfolding y by (intro conjI)
qed

text \<open>
  C7, amended. For any two input tables that have at least one row each, whose rows are in
  non-decreasing date order, and that agree on all rows dated 1991-01-01 to 2020-12-31,
  phase one completes on both with the same results, among them the climatology, the
  monthly means, the anomalies and the five hottest years; and every year selected lies
  between 1991 and 2020.
\<close>

theorem phase_one_depends_on_baseline_rows_only:
  assumes "baseline_rows df1 = baseline_rows df2"
    and "is_monotonic_increasing (map fst df1)" and "is_monotonic_increasing (map fst df2)"
    and "df1 \<noteq> []" and "df2 \<noteq> []"
  shows "\<exists>r1 r2. phase_one df1 = Inr r1 \<and> phase_one df2 = Inr r2 \<and>
           clim r1 = clim r2 \<and> monthly_means r1 = monthly_means r2 \<and> anom r1 = anom r2 \<and>
           hottest_years r1 = hottest_years r2 \<and>
           (\<forall>y \<in> set (hottest_years r1). 1991 \<le> y \<and> y \<le> 2020)"
proof -
  obtain r1 where r1: "phase_one df1 = Inr r1"
    using phase_one_sorted[of df1] assms(2,4) by (auto simp: is_monotonic_increasing_def)
  obtain r2 where r2: "phase_one df2 = Inr r2"
    using phase_one_sorted[of df2] assms(3,5) by (auto simp: is_monotonic_increasing_def)
  have same: "filter (\<lambda>x. in_baseline (fst x)) df1 = filter (\<lambda>x. in_baseline (fst x)) df2"
    using assms(1) by (simp add: baseline_rows_def)
  have "r1 = r2" using same r1 r2 by (rule phase_one_baseline_only)
  moreover have "\<forall>y \<in> set (hottest_years r1). 1991 \<le> y \<and> y \<le> 2020"
  proof
    fix y assume "y \<in> set (hottest_years r1)"
    then have "y \<in> (\<lambda>x. year (fst x)) ` set (filter (\<lambda>x. in_baseline (fst x)) df1)"
      using hottest_years_subset[OF r1] years_of_mean_anom_per_year[OF r1] by auto
    then show "1991 \<le> y \<and> y \<le> 2020"
      using in_baseline_year by auto
  qed
  ultimately show ?thesis
    using r1 r2 by blast
qed

theorem phase_one_depends_on_baseline_rows_only_witness:
  "baseline_rows sample_table =
     baseline_rows (tl sample_table @ [((2024, 7, 1), \<lparr>tl_mittel = Some 25, tlmin = Some 19, tlmax = Some 33\<rparr>)]) \<and>
   is_monotonic_increasing (map fst sample_table) \<and>
   is_monotonic_increasing
     (map fst (tl sample_table @ [((2024, 7, 1), \<lparr>tl_mittel = Some 25, tlmin = Some 19, tlmax = Some 33\<rparr>)])) \<and>
   (\<exists>r1 r2.
     phase_one sample_table = Inr r1 \<and>
     phase_one (tl sample_table @ [((2024, 7, 1), \<lparr>tl_mittel = Some 25, tlmin = Some 19, tlmax = Some 33\<rparr>)]) = Inr r2 \<and>
     clim r1 = clim r2 \<and> monthly_means r1 = monthly_means r2 \<and> anom r1 = anom r2 \<and>
     hottest_years r1 = hottest_years r2 \<and> hottest_years r2 = [1992, 1991, 2002])"
proof -
  let ?df2 = "tl sample_table @ [((2024, 7, 1), \<lparr>tl_mittel = Some 25, tlmin = Some 19, tlmax = Some 33\<rparr>)]"
  have same: "baseline_rows sample_table = baseline_rows ?df2"
    by (simp add: baseline_rows_def sample_table_def in_baseline_def)
  have m1: "is_monotonic_increasing (map fst sample_table)"
    unfolding is_monotonic_increasing_def by (rule sorted_sample_table)
  have m2: "is_monotonic_increasing (map fst ?df2)"
    by (simp add: is_monotonic_increasing_def sample_table_def)
  have n2: "?df2 \<noteq> []" by simp
  from phase_one_depends_on_baseline_rows_only[OF same m1 m2 sample_table_rows n2]
  obtain r1 r2 where r: "phase_one sample_table = Inr r1" "phase_one ?df2 = Inr r2"
    "clim r1 = clim r2" "monthly_means r1 = monthly_means r2" "anom r1 = anom r2"
    "hottest_years r1 = hottest_years r2"
    by blast
  have "hottest_years r1 = [1992, 1991, 2002]"
    using r(1) unfolding phase_one_sample_table by auto
  then have "hottest_years r2 = [1992, 1991, 2002]"
    using r(6) by simp
  with r same m1 m2 show ?thesis by blast
qed

section \<open>Phase one: the hottest years\<close>

lemma nlargest_ranking:
  fixes s :: "'k series"
  defines "L \<equiv> sort_key (\<lambda>kv. - the (snd kv)) (filter notna s) @ filter (\<lambda>kv. \<not> notna kv) s"
  shows "sorted_wrt (\<lambda>kv kv'. not_above (snd kv') (snd kv)) L"
proof -
  let ?f = "\<lambda>kv :: 'k \<times> temp. - the (snd kv)"
  let ?R = "\<lambda>kv kv' :: 'k \<times> temp. not_above (snd kv') (snd kv)"
  let ?A = "sort_key ?f (filter notna s)"
  let ?B = "filter (\<lambda>kv. \<not> notna kv) s"
  have "sorted_wrt (\<lambda>x y. ?f x \<le> ?f y) ?A"
    using sorted_sort_key[of ?f "filter notna s"] by (simp only: sorted_map)
  moreover have "\<And>x y. x \<in> set ?A \<Longrightarrow> y \<in> set ?A \<Longrightarrow> ?f x \<le> ?f y \<Longrightarrow> ?R x y"
    by (auto simp: notna_def not_above_def)
  ultimately have A: "sorted_wrt ?R ?A"
    by (rule sorted_wrt_mono_rel[rotated])
  have nanB: "\<And>y. y \<in> set ?B \<Longrightarrow> snd y = None"
    by (simp add: notna_def)
  have "sorted_wrt (\<lambda>_ _. True) ?B" by simp
  then have B: "sorted_wrt ?R ?B"
    by (rule sorted_wrt_mono_rel[rotated]) (simp add: nanB not_above_def)
  have AB: "\<forall>x \<in> set ?A. \<forall>y \<in> set ?B. ?R x y"
    by (simp add: notna_def not_above_def)
  show ?thesis
    unfolding L_def sorted_wrt_append using A B AB by blast
qed

lemma mset_nlargest_pool:
  "mset (sort_key (\<lambda>kv. - the (snd kv)) (filter notna s) @ filter (\<lambda>kv. \<not> notna kv) s) = mset s"
  by simp

lemma nlargest_props:
  fixes s :: "'k series"
  assumes "distinct (map fst s)"
  shows "distinct (map fst (nlargest n s))"
    and "length (nlargest n s) = min n (length s)"
    and "set (nlargest n s) \<subseteq> set s"
    and "\<forall>kv \<in> set (nlargest n s). \<forall>kv' \<in> set s - set (nlargest n s). not_above (snd kv') (snd kv)"
proof -
  let ?L = "sort_key (\<lambda>kv. - the (snd kv)) (filter notna s) @ filter (\<lambda>kv. \<not> notna kv) s"
  have m: "mset ?L = mset s" by (rule mset_nlargest_pool)
  have n: "nlargest n s = take n ?L" by (simp add: nlargest_def)
  have "mset (map fst ?L) = mset (map fst s)"
    using m by (metis mset_map)
  then have dL: "distinct (map fst ?L)"
    using assms mset_eq_imp_distinct_iff by blast
  show "distinct (map fst (nlargest n s))"
    unfolding n take_map[symmetric] using dL by (rule distinct_take)
  have "length ?L = length s"
    using m by (rule mset_eq_length)
  then show "length (nlargest n s) = min n (length s)"
    unfolding n by (simp add: min.commute)
  have sL: "set ?L = set s"
    using m by (rule mset_eq_setD)
  show "set (nlargest n s) \<subseteq> set s"
    unfolding n using set_take_subset[of n ?L] sL by blast
  have "sorted_wrt (\<lambda>kv kv'. not_above (snd kv') (snd kv)) (take n ?L @ drop n ?L)"
    using nlargest_ranking[of s] by (simp only: append_take_drop_id)
  then have dom: "\<forall>x \<in> set (take n ?L). \<forall>y \<in> set (drop n ?L). not_above (snd y) (snd x)"
    unfolding sorted_wrt_append by blast
  have "set s = set (take n ?L) \<union> set (drop n ?L)"
    using sL set_append[of "take n ?L" "drop n ?L"] by (simp only: append_take_drop_id)
  then show "\<forall>kv \<in> set (nlargest n s). \<forall>kv' \<in> set s - set (nlargest n s). not_above (snd kv') (snd kv)"
    unfolding n using dom by blast
qed

lemma distinct_mean_anom_per_year:
  assumes "phase_one df = Inr r"
  shows "distinct (map fst (mean_anom_per_year r))"
  by (simp add: phase_one_Inr(6)[OF assms] keys_series_mean distinct_keys_groupby)

lemma length_groupby: "length (groupby key df) = card ((\<lambda>r. key (fst r)) ` set df)"
proof -
  have "length (groupby key df) = length (remdups (map (\<lambda>r. key (fst r)) df))"
    by (simp add: groupby_def)
  also have "\<dots> = card (set (map (\<lambda>r. key (fst r)) df))"
    by (simp add: length_remdups_card_conv)
  finally show ?thesis by simp
qed

lemma length_mean_anom_per_year:
  assumes "phase_one df = Inr r"
  shows "length (mean_anom_per_year r) = card ((\<lambda>x. year (fst x)) ` {x \<in> set df. in_baseline (fst x)})"
proof -
  have "length (mean_anom_per_year r) = length (map fst (mean_anom_per_year r))" by simp
  also have "\<dots> = card (set (map fst (mean_anom_per_year r)))"
    using distinct_mean_anom_per_year[OF assms] by (simp add: distinct_card del: set_map length_map)
  also have "\<dots> = card ((\<lambda>x. year (fst x)) ` {x \<in> set df. in_baseline (fst x)})"
    using years_of_mean_anom_per_year[OF assms] by simp
  finally show ?thesis .
qed

lemma mean_anom_per_year_entry:
  assumes "phase_one df = Inr r" and "(y, v) \<in> set (mean_anom_per_year r)"
  shows "v = nanmean (map (\<lambda>x. tl_mittel (snd x)) (filter (\<lambda>x. fst (fst x) = y) (anom r)))"
proof -
  have "map_of (mean_anom_per_year r) y = Some v"
    using distinct_mean_anom_per_year[OF assms(1)] assms(2) by simp
  then have "map_option nanmean (map_of (groupby fst (column tl_mittel (anom r))) y) = Some v"
    by (simp add: phase_one_Inr(6)[OF assms(1)] map_of_series_mean)
  then have "v = nanmean (map snd (filter (\<lambda>x. fst (fst x) = y) (column tl_mittel (anom r))))"
    by (auto simp: map_of_groupby split: if_splits)
  also have "map snd (filter (\<lambda>x. fst (fst x) = y) (column tl_mittel (anom r))) =
             map (\<lambda>x. tl_mittel (snd x)) (filter (\<lambda>x. fst (fst x) = y) (anom r))"
    by (simp add: column_def filter_map comp_def case_prod_unfold)
  finally show ?thesis .
qed

lemma phase_one_six_year_table:
  assumes "phase_one six_year_table = Inr r"
  shows "mean_anom_per_year r =
           [(1991, Some (- (5 / 2))), (1992, Some (7 / 2)), (1993, Some (- (9 / 2))),
            (1994, Some (3 / 2)), (1995, Some (- (1 / 2))), (1996, Some (5 / 2))]"
    and "hottest_years r = [1992, 1996, 1994, 1995, 1991]"
proof -
  note f = phase_one_Inr[OF assms]
  have b: "filter (\<lambda>x. in_baseline (fst x)) six_year_table = six_year_table"
    by (simp add: six_year_table_def in_baseline_def)
  have cl: "clim r = [(7, \<lparr>tl_mittel = Some (11 / 2), tlmin = Some 1, tlmax = Some 5\<rparr>)]"
    unfolding f(2) b by (simp add: six_year_table_def eval_defs)
  have mm: "monthly_means r = map (\<lambda>x. ((year (fst x), month (fst x)), snd x)) six_year_table"
    unfolding f(3) b by (simp add: six_year_table_def eval_defs)
  have an: "anom r =
     [((1991, 7), \<lparr>tl_mittel = Some (- (5 / 2)), tlmin = Some 0, tlmax = Some 0\<rparr>),
      ((1992, 7), \<lparr>tl_mittel = Some (7 / 2), tlmin = Some 0, tlmax = Some 0\<rparr>),
      ((1993, 7), \<lparr>tl_mittel = Some (- (9 / 2)), tlmin = Some 0, tlmax = Some 0\<rparr>),
      ((1994, 7), \<lparr>tl_mittel = Some (3 / 2), tlmin = Some 0, tlmax = Some 0\<rparr>),
      ((1995, 7), \<lparr>tl_mittel = Some (- (1 / 2)), tlmin = Some 0, tlmax = Some 0\<rparr>),
      ((1996, 7), \<lparr>tl_mittel = Some (5 / 2), tlmin = Some 0, tlmax = Some 0\<rparr>)]"
    unfolding f(5) cl mm by (simp add: six_year_table_def eval_defs)
  show ma: "mean_anom_per_year r =
           [(1991, Some (- (5 / 2))), (1992, Some (7 / 2)), (1993, Some (- (9 / 2))),
            (1994, Some (3 / 2)), (1995, Some (- (1 / 2))), (1996, Some (5 / 2))]"
    unfolding f(6) an by (simp add: eval_defs)
  show "hottest_years r = [1992, 1996, 1994, 1995, 1991]"
    unfolding f(7) ma by (simp add: eval_defs)
qed

text \<open>
  C3, as stated, fails on a table with fewer than five years in the baseline window: one
  baseline year gives one highlighted year.
\<close>

theorem hottest_years_single_year_counterexample:
  "map_sum id hottest_years
     (phase_one [((1991, 7, 1), \<lparr>tl_mittel = Some 20, tlmin = Some 15, tlmax = Some 25\<rparr>)]) = Inr [1991]"
proof -
  let ?df = "[((1991, 7, 1), \<lparr>tl_mittel = Some 20, tlmin = Some 15, tlmax = Some 25\<rparr>)] :: date frame"
  obtain r where r: "phase_one ?df = Inr r"
    using phase_one_sorted[of ?df] by auto
  note f = phase_one_Inr[OF r]
  have b: "filter (\<lambda>x. in_baseline (fst x)) ?df = ?df"
    by (simp add: in_baseline_def)
  have cl: "clim r = [(7, \<lparr>tl_mittel = Some 20, tlmin = Some 15, tlmax = Some 25\<rparr>)]"
    unfolding f(2) b by (simp add: eval_defs)
  have mm: "monthly_means r = [((1991, 7), \<lparr>tl_mittel = Some 20, tlmin = Some 15, tlmax = Some 25\<rparr>)]"
    unfolding f(3) b by (simp add: eval_defs)
  have an: "anom r = [((1991, 7), \<lparr>tl_mittel = Some 0, tlmin = Some 0, tlmax = Some 0\<rparr>)]"
    unfolding f(5) cl mm by (simp add: eval_defs)
  have ma: "mean_anom_per_year r = [(1991, Some 0)]"
    unfolding f(6) an by (simp add: eval_defs)
  have "hottest_years r = [1991]"
    unfolding f(7) ma by (simp add: eval_defs)
  then show ?thesis
    unfolding r by simp
qed

text \<open>
  C3, amended. The highlighted years are distinct years of the baseline window, five of
  them or all of them when the window holds fewer than five years. Each year's score is
  the mean of its monthly \<open>tl_mittel\<close> anomalies, and no year left out has a score above
  that of a year selected; a year whose score is missing ranks below every year with a
  score.
\<close>

theorem hottest_years_are_top_mean_anomaly_years:
  assumes "phase_one df = Inr r"
  shows "distinct (hottest_years r) \<and>
         length (hottest_years r) = min 5 (card ((\<lambda>x. year (fst x)) ` {x \<in> set df. in_baseline (fst x)})) \<and>
         set (hottest_years r) \<subseteq> fst ` set (mean_anom_per_year r) \<and>
         fst ` set (mean_anom_per_year r) = (\<lambda>x. year (fst x)) ` {x \<in> set df. in_baseline (fst x)} \<and>
         (\<forall>(y, v) \<in> set (mean_anom_per_year r).
            v = nanmean (map (\<lambda>x. tl_mittel (snd x)) (filter (\<lambda>x. fst (fst x) = y) (anom r)))) \<and>
         (\<forall>(y, v) \<in> set (mean_anom_per_year r). \<forall>(y', v') \<in> set (mean_anom_per_year r).
            y \<in> set (hottest_years r) \<and> y' \<notin> set (hottest_years r) \<longrightarrow> not_above v' v)"
proof -
  let ?s = "mean_anom_per_year r"
  note d = distinct_mean_anom_per_year[OF assms]
  note h = phase_one_Inr(7)[OF assms]
  note p = nlargest_props[OF d, of 5]
  have 1: "distinct (hottest_years r)"
    unfolding h by (rule p(1))
  have 2: "length (hottest_years r) = min 5 (card ((\<lambda>x. year (fst x)) ` {x \<in> set df. in_baseline (fst x)}))"
    unfolding h using p(2) by (simp add: length_mean_anom_per_year[OF assms])
  have 3: "set (hottest_years r) \<subseteq> fst ` set ?s"
    by (rule hottest_years_subset[OF assms])
  have 4: "fst ` set ?s = (\<lambda>x. year (fst x)) ` {x \<in> set df. in_baseline (fst x)}"
    using years_of_mean_anom_per_year[OF assms] by simp
  have 5: "\<forall>(y, v) \<in> set ?s. v = nanmean (map (\<lambda>x. tl_mittel (snd x)) (filter (\<lambda>x. fst (fst x) = y) (anom r)))"
    using mean_anom_per_year_entry[OF assms] by blast
  have 6: "\<forall>(y, v) \<in> set ?s. \<forall>(y', v') \<in> set ?s.
            y \<in> set (hottest_years r) \<and> y' \<notin> set (hottest_years r) \<longrightarrow> not_above v' v"
  proof (clarify)
    fix y v y' v'
    assume yv: "(y, v) \<in> set ?s" and yv': "(y', v') \<in> set ?s"
      and sel: "y \<in> set (hottest_years r)" and out: "y' \<notin> set (hottest_years r)"
    from sel obtain v0 where v0: "(y, v0) \<in> set (nlargest 5 ?s)"
      unfolding h by auto
    then have "(y, v0) \<in> set ?s" using p(3) by blast
    then have "v0 = v" using eq_key_imp_eq_value[OF d] yv by blast
    then have a: "(y, v) \<in> set (nlargest 5 ?s)" using v0 by simp
    have "(y', v') \<notin> set (nlargest 5 ?s)"
      using out unfolding h by force
    then have b: "(y', v') \<in> set ?s - set (nlargest 5 ?s)" using yv' by simp
    from p(4) a b show "not_above v' v" by force
  qed
  from 1 2 3 4 5 6 show ?thesis by blast
qed

theorem hottest_years_are_top_mean_anomaly_years_witness:
  "\<exists>r. phase_one six_year_table = Inr r \<and>
       mean_anom_per_year r =
         [(1991, Some (- (5 / 2))), (1992, Some (7 / 2)), (1993, Some (- (9 / 2))),
          (1994, Some (3 / 2)), (1995, Some (- (1 / 2))), (1996, Some (5 / 2))] \<and>
       hottest_years r = [1992, 1996, 1994, 1995, 1991] \<and>
       length (hottest_years r) = min 5 (card ((\<lambda>x. year (fst x)) ` {x \<in> set six_year_table. in_baseline (fst x)})) \<and>
       not_above (Some (- (9 / 2))) (Some (- (5 / 2)))"
proof -
  obtain r where r: "phase_one six_year_table = Inr r"
    using phase_one_sorted[OF six_year_table_rows] by blast
  have v: "mean_anom_per_year r =
         [(1991, Some (- (5 / 2))), (1992, Some (7 / 2)), (1993, Some (- (9 / 2))),
          (1994, Some (3 / 2)), (1995, Some (- (1 / 2))), (1996, Some (5 / 2))]"
       "hottest_years r = [1992, 1996, 1994, 1995, 1991]"
    using phase_one_six_year_table[OF r] by simp_all
  from hottest_years_are_top_mean_anomaly_years[OF r]
  have len: "length (hottest_years r) = min 5 (card ((\<lambda>x. year (fst x)) ` {x \<in> set six_year_table. in_baseline (fst x)}))"
    by (elim conjE)
  have "not_above (Some (- (9 / 2))) (Some (- (5 / 2)))"
    by (simp add: not_above_def)
  with r v len show ?thesis
    by blast
qed

section \<open>Phase three: threshold counts\<close>

lemma map_of_annual_stats:
  "map_of (annual_stats df) y =
     (if y \<in> (\<lambda>x. year (fst x)) ` set df
      then Some [(''hot_days'', count_ge 30 (map tlmax (map snd (filter (\<lambda>x. year (fst x) = y) df)))),
                 (''tropical_nights'', count_ge 20 (map tlmin (map snd (filter (\<lambda>x. year (fst x) = y) df))))]
      else None)"
  by (simp add: annual_stats_def map_of_map map_of_groupby)

lemma count_ge_rows:
  "count_ge t (map c (map snd (filter P df))) =
   length (filter (\<lambda>x. P x \<and> (\<exists>v. c (snd x) = Some v \<and> t \<le> v)) df)"
proof (induction df)
  case Nil
  show ?case by (simp add: count_ge_def)
next
  case (Cons x xs)
  then show ?case
    by (cases "c (snd x)") (auto simp: count_ge_def)
qed

text \<open>
  C4, as stated, fails on a day whose maximum is exactly 30 or whose minimum is exactly 20:
  the script counts it, a count of the rows that exceed the threshold does not.
\<close>

theorem annual_stats_threshold_counterexample:
  "annual_stats [((2019, 7, 1), \<lparr>tl_mittel = Some 24, tlmin = Some 20, tlmax = Some 30\<rparr>)] =
     [(2019, [(''hot_days'', 1), (''tropical_nights'', 1)])] \<and>
   count_exceeding 30 [Some 30] = 0 \<and> count_exceeding 20 [Some 20] = 0"
  by (simp add: annual_stats_def groupby_def year_def count_ge_def count_exceeding_def)

text \<open>
  C4, amended. For every calendar year of the input, \<open>hot_days\<close> is the number of rows of
  that year whose \<open>tlmax\<close> is at least 30, and \<open>tropical_nights\<close> the number of rows of that
  year whose \<open>tlmin\<close> is at least 20; each count looks at its own column and threshold
  only, and a missing cell is not counted.
\<close>

theorem annual_stats_counts_days_at_or_above_threshold:
  assumes "(d, v) \<in> set df"
  shows "map_of (annual_stats df) (year d) =
           Some [(''hot_days'',
                  length (filter (\<lambda>x. year (fst x) = year d \<and> (\<exists>t. tlmax (snd x) = Some t \<and> 30 \<le> t)) df)),
                 (''tropical_nights'',
                  length (filter (\<lambda>x. year (fst x) = year d \<and> (\<exists>t. tlmin (snd x) = Some t \<and> 20 \<le> t)) df))]"
proof -
  have "year d \<in> (\<lambda>x. year (fst x)) ` set df"
    using assms by force
  then show ?thesis
    unfolding map_of_annual_stats count_ge_rows by simp
qed

theorem annual_stats_counts_days_at_or_above_threshold_witness:
  "((1991, 1, 2), \<lparr>tl_mittel = Some 4, tlmin = Some 1, tlmax = Some 30\<rparr>) \<in> set sample_table \<and>
   map_of (annual_stats sample_table) 1991 = Some [(''hot_days'', 1), (''tropical_nights'', 1)]"
proof -
  have mem: "((1991, 1, 2), \<lparr>tl_mittel = Some 4, tlmin = Some 1, tlmax = Some 30\<rparr>) \<in> set sample_table"
    by (simp add: sample_table_def)
  have y: "year (1991, 1, 2) = 1991"
    by (simp add: year_def)
  have h: "length (filter (\<lambda>x. year (fst x) = 1991 \<and> (\<exists>t. tlmax (snd x) = Some t \<and> 30 \<le> t)) sample_table) = 1"
    by (simp add: sample_table_def year_def)
  have n: "length (filter (\<lambda>x. year (fst x) = 1991 \<and> (\<exists>t. tlmin (snd x) = Some t \<and> 20 \<le> t)) sample_table) = 1"
    by (simp add: sample_table_def year_def)
  from annual_stats_counts_days_at_or_above_threshold[OF mem]
  show ?thesis
    unfolding y h n using mem by simp
qed

section \<open>Phase two: the table of order statistics\<close>

lemma in_bounds_2002:
  "in_bounds (Some (Day 2002 1 1)) (Some (Day 2002 12 31)) d = ((2002, 1, 1) \<le> d \<and> d \<le> (2002, 12, 31))"
  by (simp add: in_bounds_def)

lemma in_bounds_2023:
  "in_bounds (Some (Day 2023 1 1)) None d = ((2023, 1, 1) \<le> d)"
  by (simp add: in_bounds_def)

lemma filter_two_ranges:
  fixes df :: "('d::linorder \<times> 'v) list"
  assumes "sorted (map fst df)" and "b < c"
  shows "filter (\<lambda>x. a \<le> fst x \<and> fst x \<le> b) df @ filter (\<lambda>x. c \<le> fst x) df =
         filter (\<lambda>x. (a \<le> fst x \<and> fst x \<le> b) \<or> c \<le> fst x) df"
  using assms(1)
proof (induction df)
  case Nil
  show ?case by simp
next
  case (Cons x xs)
  then have IH: "filter (\<lambda>x. a \<le> fst x \<and> fst x \<le> b) xs @ filter (\<lambda>x. c \<le> fst x) xs =
         filter (\<lambda>x. (a \<le> fst x \<and> fst x \<le> b) \<or> c \<le> fst x) xs"
    and le: "\<forall>y \<in> set xs. fst x \<le> fst y"
    by auto
  show ?case
  proof (cases "c \<le> fst x")
    case True
    then have "\<forall>y \<in> set xs. \<not> (a \<le> fst y \<and> fst y \<le> b)"
      using le assms(2) by force
    then have e: "filter (\<lambda>x. a \<le> fst x \<and> fst x \<le> b) xs = []"
      by (simp add: filter_empty_conv)
    have nx: "\<not> (a \<le> fst x \<and> fst x \<le> b)"
      using True assms(2) by auto
    show ?thesis
      using True nx IH e by simp
  next
    case False
    then show ?thesis
      using IH by simp
  qed
qed

lemma phase_two_Inr:
  assumes "phase_two df = Inr st"
  shows "sorted (map fst df)"
    and "st = monthly_stats (filter (\<lambda>x. in_custom_years (fst x)) df)"
proof -
  from assms obtain a b where a: "slice_rows (Some (Day 2002 1 1)) (Some (Day 2002 12 31)) df = Inr a"
    and b: "slice_rows (Some (Day 2023 1 1)) None df = Inr b"
    and st: "st = monthly_stats (a @ b)"
    by (auto simp: phase_two_def split: sum.splits)
  from a show s: "sorted (map fst df)" using slice_rows_stop_iff by blast
  have a': "a = filter (\<lambda>x. (2002, 1, 1) \<le> fst x \<and> fst x \<le> (2002, 12, 31)) df"
    using slice_rows_Inr[OF a] unfolding in_bounds_2002 .
  have b': "b = filter (\<lambda>x. (2023, 1, 1) \<le> fst x) df"
    using slice_rows_Inr[OF b] unfolding in_bounds_2023 .
  have "(2002, 12, 31) < ((2023, 1, 1) :: date)" by simp
  then have "a @ b = filter (\<lambda>x. in_custom_years (fst x)) df"
    unfolding a' b' in_custom_years_def by (rule filter_two_ranges[OF s])
  then show "st = monthly_stats (filter (\<lambda>x. in_custom_years (fst x)) df)"
    using st by simp
qed

lemma phase_two_sorted:
  assumes "sorted (map fst df)"
  shows "phase_two df = Inr (monthly_stats (filter (\<lambda>x. in_custom_years (fst x)) df))"
proof -
  have "\<exists>st. phase_two df = Inr st"
    unfolding phase_two_def slice_rows_sorted[OF assms] by simp
  then show ?thesis
    using phase_two_Inr(2) by blast
qed

lemma phase_two_unsorted: "\<not> sorted (map fst df) \<Longrightarrow> phase_two df = Inl KeyError"
  unfolding phase_two_def by (simp add: slice_rows_unsorted)

lemma map_of_monthly_stats:
  "map_of (monthly_stats t) m =
     (if m \<in> (\<lambda>x. month (fst x)) ` set t
      then Some (zip stat_labels (agg_group (map snd (filter (\<lambda>x. month (fst x) = m) t))))
      else None)"
  by (simp add: monthly_stats_def map_of_map map_of_groupby)

lemma filter_month_custom:
  "filter (\<lambda>x. month (fst x) = m) (filter (\<lambda>x. in_custom_years (fst x)) df) =
   filter (\<lambda>x. in_custom_years (fst x) \<and> month (fst x) = m) df"
  by (simp add: conj_commute)

lemma stat_labels_lookup:
  fixes vs :: "cols list"
  defines "e \<equiv> zip stat_labels (agg_group vs)"
  shows "map_of e (''tl_mittel'', ''median'') = Some (median (map tl_mittel vs))"
    and "map_of e (''tl_mittel'', ''p25'') = Some (quantile (1/4) (map tl_mittel vs))"
    and "map_of e (''tl_mittel'', ''p75'') = Some (quantile (3/4) (map tl_mittel vs))"
    and "map_of e (''tl_mittel'', ''p10'') = Some (quantile (1/10) (map tl_mittel vs))"
    and "map_of e (''tl_mittel'', ''p90'') = Some (quantile (9/10) (map tl_mittel vs))"
    and "map_of e (''tlmin'', ''median'') = Some (median (map tlmin vs))"
    and "map_of e (''tlmin'', ''p25'') = Some (quantile (1/4) (map tlmin vs))"
    and "map_of e (''tlmin'', ''p75'') = Some (quantile (3/4) (map tlmin vs))"
    and "map_of e (''tlmin'', ''p10'') = Some (quantile (1/10) (map tlmin vs))"
    and "map_of e (''tlmin'', ''p90'') = Some (quantile (9/10) (map tlmin vs))"
    and "map_of e (''tlmax'', ''median'') = Some (median (map tlmax vs))"
    and "map_of e (''tlmax'', ''p25'') = Some (quantile (1/4) (map tlmax vs))"
    and "map_of e (''tlmax'', ''p75'') = Some (quantile (3/4) (map tlmax vs))"
    and "map_of e (''tlmax'', ''p10'') = Some (quantile (1/10) (map tlmax vs))"
    and "map_of e (''tlmax'', ''p90'') = Some (quantile (9/10) (map tlmax vs))"
  unfolding e_def by (simp_all add: stat_labels_def agg_group_def agg_funcs_def)

lemma script_monthly_stats_Inr:
  assumes "script_monthly_stats df = Inr st"
  shows "phase_two df = Inr st" and "df \<noteq> []" and "sorted (map fst df)"
proof -
  from assms obtain r1 where r1: "phase_one df = Inr r1" and st: "phase_two df = Inr st"
    by (auto simp: script_monthly_stats_def split: sum.splits)
  show "phase_two df = Inr st" by (rule st)
  show "df \<noteq> []" using r1 by (rule phase_one_Inr(8))
  show "sorted (map fst df)" using r1 by (rule phase_one_Inr(1))
qed

lemma script_monthly_stats_sorted:
  assumes "sorted (map fst df)" and "df \<noteq> []"
  shows "script_monthly_stats df = Inr (monthly_stats (custom_year_rows df))"
proof -
  obtain r1 where "phase_one df = Inr r1"
    using phase_one_sorted[OF assms] by blast
  then show ?thesis
    by (simp add: script_monthly_stats_def phase_two_sorted[OF assms(1)] custom_year_rows_def)
qed

lemma script_monthly_stats_unsorted:
  "\<not> sorted (map fst df) \<Longrightarrow> script_monthly_stats df = Inl KeyError"
  by (simp add: script_monthly_stats_def phase_one_unsorted)

lemma script_monthly_stats_empty: "script_monthly_stats [] = Inl TypeError"
  by (simp add: script_monthly_stats_def phase_one_empty)

text \<open>
  C5. For a calendar month with a row in the custom year set, the row of \<open>monthly_stats\<close>
  holds for each of the three columns, under the labels \<open>median\<close>, \<open>p25\<close>, \<open>p75\<close>, \<open>p10\<close>
  and \<open>p90\<close>, the median and the 25th, 75th, 10th and 90th percentile of the values
  observed in that column on the custom-year days of that month. The median is the middle
  one of the sorted values, or the mean of the two middle ones; the percentile for \<open>q\<close> is
  read off the sorted values at the position \<open>q * (n - 1)\<close>, between two neighbours in
  proportion to the fractional part of the position. A column without a value has missing
  statistics, and a month without a custom-year row has no row in the table.
\<close>

theorem monthly_stats_labels_hold_their_statistics:
  fixes m :: nat
  assumes "script_monthly_stats df = Inr st"
  defines "rows \<equiv> map snd (filter (\<lambda>x. in_custom_years (fst x) \<and> month (fst x) = m) df)"
  shows "(rows = [] \<longrightarrow> map_of st m = None) \<and>
         (rows \<noteq> [] \<longrightarrow>
            (\<exists>e. map_of st m = Some e \<and> length e = 15 \<and>
                 (\<forall>(name, col) \<in> {(''tl_mittel'', tl_mittel), (''tlmin'', tlmin), (''tlmax'', tlmax)}.
                    let xs = sort (dropna (map col rows));
                        n = length xs;
                        pct = (\<lambda>q. if n = 0 then None
                                   else (let pos = q * of_nat (n - 1);
                                             lo = nat \<lfloor>pos\<rfloor>;
                                             hi = min (lo + 1) (n - 1)
                                         in Some (xs ! lo + (xs ! hi - xs ! lo) * (pos - of_nat lo))))
                    in map_of e (name, ''median'') =
                         Some (if n = 0 then None
                               else if odd n then Some (xs ! (n div 2))
                               else Some ((xs ! (n div 2 - 1) + xs ! (n div 2)) / 2)) \<and>
                       map_of e (name, ''p25'') = Some (pct (1/4)) \<and>
                       map_of e (name, ''p75'') = Some (pct (3/4)) \<and>
                       map_of e (name, ''p10'') = Some (pct (1/10)) \<and>
                       map_of e (name, ''p90'') = Some (pct (9/10)))))"
proof (cases "rows = []")
  case True
  then have "m \<notin> (\<lambda>x. month (fst x)) ` set (filter (\<lambda>x. in_custom_years (fst x)) df)"
    by (auto simp: rows_def filter_empty_conv)
  then show ?thesis
    using True
    by (simp add: phase_two_Inr(2)[OF script_monthly_stats_Inr(1)[OF assms(1)]] map_of_monthly_stats)
next
  case False
  then obtain x where "x \<in> set df" "in_custom_years (fst x)" "month (fst x) = m"
    by (auto simp: rows_def filter_empty_conv)
  then have "m \<in> (\<lambda>x. month (fst x)) ` set (filter (\<lambda>x. in_custom_years (fst x)) df)"
    by force
  then have e: "map_of st m = Some (zip stat_labels (agg_group rows))"
    by (simp add: phase_two_Inr(2)[OF script_monthly_stats_Inr(1)[OF assms(1)]]
          map_of_monthly_stats filter_month_custom rows_def)
  have k: "length (zip stat_labels (agg_group rows)) = 15"
    by (simp add: stat_labels_def agg_group_def agg_funcs_def)
  have s: "\<forall>(name, col) \<in> {(''tl_mittel'', tl_mittel), (''tlmin'', tlmin), (''tlmax'', tlmax)}.
                    let xs = sort (dropna (map col rows));
                        n = length xs;
                        pct = (\<lambda>q. if n = 0 then None
                                   else (let pos = q * of_nat (n - 1);
                                             lo = nat \<lfloor>pos\<rfloor>;
                                             hi = min (lo + 1) (n - 1)
                                         in Some (xs ! lo + (xs ! hi - xs ! lo) * (pos - of_nat lo))))
                    in map_of (zip stat_labels (agg_group rows)) (name, ''median'') =
                         Some (if n = 0 then None
                               else if odd n then Some (xs ! (n div 2))
                               else Some ((xs ! (n div 2 - 1) + xs ! (n div 2)) / 2)) \<and>
                       map_of (zip stat_labels (agg_group rows)) (name, ''p25'') = Some (pct (1/4)) \<and>
                       map_of (zip stat_labels (agg_group rows)) (name, ''p75'') = Some (pct (3/4)) \<and>
                       map_of (zip stat_labels (agg_group rows)) (name, ''p10'') = Some (pct (1/10)) \<and>
                       map_of (zip stat_labels (agg_group rows)) (name, ''p90'') = Some (pct (9/10))"
    by (simp add: stat_labels_lookup median_def quantile_def linear_interpolation_def Let_def)
  from False e k s show ?thesis by blast
qed

lemma custom_january_sample_table:
  "map snd (filter (\<lambda>x. in_custom_years (fst x) \<and> month (fst x) = 1) sample_table) =
     [\<lparr>tl_mittel = Some 1, tlmin = Some 2, tlmax = Some 3\<rparr>,
      \<lparr>tl_mittel = Some 5, tlmin = Some 6, tlmax = Some 7\<rparr>,
      \<lparr>tl_mittel = Some 2, tlmin = None, tlmax = Some 4\<rparr>,
      \<lparr>tl_mittel = Some 10, tlmin = Some 11, tlmax = Some 12\<rparr>]"
  by (simp add: sample_table_def in_custom_years_def month_def)

lemma january_table_rows:
  "sorted (map fst january_table)" "january_table \<noteq> []"
  "map snd (filter (\<lambda>x. in_custom_years (fst x) \<and> month (fst x) = 1) january_table) = map snd january_table"
  "map snd (filter (\<lambda>x. in_custom_years (fst x) \<and> month (fst x) = 2) january_table) = []"
  by (simp_all add: january_table_def in_custom_years_def month_def)

lemma january_table_sorted_values:
  "sort (dropna (map tl_mittel (map snd january_table))) = [1, 2, 5, 9]"
  "sort (dropna (map tlmin (map snd january_table))) = [- 3, 1, 4]"
  by (simp_all add: january_table_def)

lemma january_table_floors:
  "\<lfloor>3 / 4 :: rat\<rfloor> = 0" "\<lfloor>9 / 4 :: rat\<rfloor> = 2" "\<lfloor>3 / 10 :: rat\<rfloor> = 0" "\<lfloor>27 / 10 :: rat\<rfloor> = 2"
  by (rule floor_unique; simp)+

theorem monthly_stats_labels_hold_their_statistics_witness:
  "\<exists>st e. script_monthly_stats january_table = Inr st \<and>
          map (\<lambda>x. tl_mittel (snd x)) january_table = [Some 9, Some 1, Some 5, Some 2] \<and>
          map (\<lambda>x. tlmin (snd x)) january_table = [Some 4, Some (- 3), None, Some 1] \<and>
          map_of st 1 = Some e \<and>
          map_of e (''tl_mittel'', ''median'') = Some (Some (7 / 2)) \<and>
          map_of e (''tl_mittel'', ''p25'') = Some (Some (7 / 4)) \<and>
          map_of e (''tl_mittel'', ''p75'') = Some (Some 6) \<and>
          map_of e (''tl_mittel'', ''p10'') = Some (Some (13 / 10)) \<and>
          map_of e (''tl_mittel'', ''p90'') = Some (Some (39 / 5)) \<and>
          map_of e (''tlmin'', ''median'') = Some (Some 1) \<and>
          map_of st 2 = None"
proof -
  have st: "script_monthly_stats january_table = Inr (monthly_stats (custom_year_rows january_table))"
    using january_table_rows(1,2) by (rule script_monthly_stats_sorted)
  have v: "map (\<lambda>x. tl_mittel (snd x)) january_table = [Some 9, Some 1, Some 5, Some 2]"
          "map (\<lambda>x. tlmin (snd x)) january_table = [Some 4, Some (- 3), None, Some 1]"
    by (simp_all add: january_table_def)
  have ne: "map snd january_table \<noteq> []"
    using january_table_rows(2) by simp
  from monthly_stats_labels_hold_their_statistics[OF st, of 1, unfolded january_table_rows(3)] ne
  obtain e where e: "map_of (monthly_stats (custom_year_rows january_table)) 1 = Some e"
    and b: "\<forall>(name, col) \<in> {(''tl_mittel'', tl_mittel), (''tlmin'', tlmin), (''tlmax'', tlmax)}.
                    let xs = sort (dropna (map col (map snd january_table)));
                        n = length xs;
                        pct = (\<lambda>q. if n = 0 then None
                                   else (let pos = q * of_nat (n - 1);
                                             lo = nat \<lfloor>pos\<rfloor>;
                                             hi = min (lo + 1) (n - 1)
                                         in Some (xs ! lo + (xs ! hi - xs ! lo) * (pos - of_nat lo))))
                    in map_of e (name, ''median'') =
                         Some (if n = 0 then None
                               else if odd n then Some (xs ! (n div 2))
                               else Some ((xs ! (n div 2 - 1) + xs ! (n div 2)) / 2)) \<and>
                       map_of e (name, ''p25'') = Some (pct (1/4)) \<and>
                       map_of e (name, ''p75'') = Some (pct (3/4)) \<and>
                       map_of e (name, ''p10'') = Some (pct (1/10)) \<and>
                       map_of e (name, ''p90'') = Some (pct (9/10))"
    by blast
  have "(''tl_mittel'', tl_mittel) \<in> {(''tl_mittel'', tl_mittel), (''tlmin'', tlmin), (''tlmax'', tlmax :: cols \<Rightarrow> temp)}"
    by simp
  from bspec[OF b this]
  have a: "map_of e (''tl_mittel'', ''median'') = Some (Some (7 / 2))"
      "map_of e (''tl_mittel'', ''p25'') = Some (Some (7 / 4))"
      "map_of e (''tl_mittel'', ''p75'') = Some (Some 6)"
      "map_of e (''tl_mittel'', ''p10'') = Some (Some (13 / 10))"
      "map_of e (''tl_mittel'', ''p90'') = Some (Some (39 / 5))"
    unfolding prod.case Let_def january_table_sorted_values
    by (simp_all add: january_table_floors)
  have "(''tlmin'', tlmin) \<in> {(''tl_mittel'', tl_mittel), (''tlmin'', tlmin), (''tlmax'', tlmax :: cols \<Rightarrow> temp)}"
    by simp
  from bspec[OF b this]
  have c: "map_of e (''tlmin'', ''median'') = Some (Some 1)"
    unfolding prod.case Let_def january_table_sorted_values
    by simp
  from monthly_stats_labels_hold_their_statistics[OF st, of 2, unfolded january_table_rows(4)]
  have n: "map_of (monthly_stats (custom_year_rows january_table)) 2 = None"
    by simp
  show ?thesis
    using st v e a c n by (intro exI[of _ "monthly_stats (custom_year_rows january_table)"] exI[of _ e]) simp
qed

lemma single_row_monthly_stats:
  "map fst (monthly_stats [(d, v)]) = [month d]"
  by (simp add: monthly_stats_def groupby_def)

text \<open>
  C6, as stated, fails in two ways. A row of 1985 that stands out of date order makes the
  first date slice raise KeyError, although the rows of 2002 and from 2023 on are the
  same; and a table without rows stops in phase one with TypeError, while a table whose
  only row lies outside the two ranges gets an empty \<open>monthly_stats\<close>.
\<close>

theorem monthly_stats_rows_outside_custom_years_counterexample:
  "custom_year_rows [((2002, 1, 1), \<lparr>tl_mittel = Some 3, tlmin = Some 1, tlmax = Some 5\<rparr>)] =
   custom_year_rows [((2002, 1, 1), \<lparr>tl_mittel = Some 3, tlmin = Some 1, tlmax = Some 5\<rparr>),
                     ((1985, 3, 9), \<lparr>tl_mittel = Some 7, tlmin = Some 2, tlmax = Some 11\<rparr>)] \<and>
   map_sum id (map fst)
     (script_monthly_stats [((2002, 1, 1), \<lparr>tl_mittel = Some 3, tlmin = Some 1, tlmax = Some 5\<rparr>)]) = Inr [1] \<and>
   script_monthly_stats [((2002, 1, 1), \<lparr>tl_mittel = Some 3, tlmin = Some 1, tlmax = Some 5\<rparr>),
                         ((1985, 3, 9), \<lparr>tl_mittel = Some 7, tlmin = Some 2, tlmax = Some 11\<rparr>)] = Inl KeyError \<and>
   custom_year_rows [] = custom_year_rows [((1950, 6, 1), \<lparr>tl_mittel = Some 1, tlmin = Some 0, tlmax = Some 2\<rparr>)] \<and>
   script_monthly_stats [] = Inl TypeError \<and>
   script_monthly_stats [((1950, 6, 1), \<lparr>tl_mittel = Some 1, tlmin = Some 0, tlmax = Some 2\<rparr>)] = Inr []"
proof -
  let ?t1 = "[((2002, 1, 1), \<lparr>tl_mittel = Some 3, tlmin = Some 1, tlmax = Some 5\<rparr>)] :: date frame"
  let ?t3 = "[((1950, 6, 1), \<lparr>tl_mittel = Some 1, tlmin = Some 0, tlmax = Some 2\<rparr>)] :: date frame"
  have 1: "custom_year_rows ?t1 =
   custom_year_rows [((2002, 1, 1), \<lparr>tl_mittel = Some 3, tlmin = Some 1, tlmax = Some 5\<rparr>),
                     ((1985, 3, 9), \<lparr>tl_mittel = Some 7, tlmin = Some 2, tlmax = Some 11\<rparr>)]"
    by (simp add: custom_year_rows_def in_custom_years_def)
  have c1: "custom_year_rows ?t1 = ?t1"
    by (simp add: custom_year_rows_def in_custom_years_def)
  have "script_monthly_stats ?t1 = Inr (monthly_stats (custom_year_rows ?t1))"
    by (rule script_monthly_stats_sorted) simp_all
  then have 2: "map_sum id (map fst) (script_monthly_stats ?t1) = Inr [1]"
    unfolding c1 by (simp add: single_row_monthly_stats month_def)
  have 3: "script_monthly_stats [((2002, 1, 1), \<lparr>tl_mittel = Some 3, tlmin = Some 1, tlmax = Some 5\<rparr>),
                         ((1985, 3, 9), \<lparr>tl_mittel = Some 7, tlmin = Some 2, tlmax = Some 11\<rparr>)] = Inl KeyError"
    by (rule script_monthly_stats_unsorted) simp
  have c3: "custom_year_rows ?t3 = []"
    by (simp add: custom_year_rows_def in_custom_years_def)
  then have 4: "custom_year_rows [] = custom_year_rows ?t3"
    by (simp add: custom_year_rows_def)
  have "script_monthly_stats ?t3 = Inr (monthly_stats (custom_year_rows ?t3))"
    by (rule script_monthly_stats_sorted) simp_all
  then have 5: "script_monthly_stats ?t3 = Inr []"
    unfolding c3 by (simp add: monthly_stats_def groupby_def)
  from 1 2 3 4 script_monthly_stats_empty 5 show ?thesis
    by (intro conjI)
qed

text \<open>
  C6, amended. For any two input tables that have at least one row each, whose rows are in
  non-decreasing date order, and that agree on the rows of the year 2002 and on the rows
  dated 2023-01-01 or later, the script computes the same \<open>monthly_stats\<close>, from these
  rows alone.
\<close>

theorem monthly_stats_depends_on_custom_years_only:
  assumes "custom_year_rows df1 = custom_year_rows df2"
    and "is_monotonic_increasing (map fst df1)" and "is_monotonic_increasing (map fst df2)"
    and "df1 \<noteq> []" and "df2 \<noteq> []"
  shows "script_monthly_stats df1 = Inr (monthly_stats (custom_year_rows df1)) \<and>
         script_monthly_stats df2 = script_monthly_stats df1"
  using assms by (simp add: script_monthly_stats_sorted is_monotonic_increasing_def)

theorem monthly_stats_depends_on_custom_years_only_witness:
  "custom_year_rows sample_table =
     custom_year_rows (((1985, 3, 9), \<lparr>tl_mittel = Some 7, tlmin = Some 2, tlmax = Some 11\<rparr>) # drop 5 sample_table) \<and>
   is_monotonic_increasing (map fst sample_table) \<and>
   is_monotonic_increasing
     (map fst (((1985, 3, 9), \<lparr>tl_mittel = Some 7, tlmin = Some 2, tlmax = Some 11\<rparr>) # drop 5 sample_table)) \<and>
   map fst (custom_year_rows sample_table) = [(2002, 1, 1), (2002, 1, 2), (2002, 1, 3), (2023, 1, 1)] \<and>
   script_monthly_stats sample_table = Inr (monthly_stats (custom_year_rows sample_table)) \<and>
   script_monthly_stats (((1985, 3, 9), \<lparr>tl_mittel = Some 7, tlmin = Some 2, tlmax = Some 11\<rparr>) # drop 5 sample_table) =
     script_monthly_stats sample_table"
proof -
  let ?df2 = "((1985, 3, 9), \<lparr>tl_mittel = Some 7, tlmin = Some 2, tlmax = Some 11\<rparr>) # drop 5 sample_table"
  have same: "custom_year_rows sample_table = custom_year_rows ?df2"
    by (simp add: custom_year_rows_def sample_table_def in_custom_years_def)
  have m1: "is_monotonic_increasing (map fst sample_table)"
    unfolding is_monotonic_increasing_def by (rule sorted_sample_table)
  have m2: "is_monotonic_increasing (map fst ?df2)"
    by (simp add: is_monotonic_increasing_def sample_table_def)
  have n2: "?df2 \<noteq> []" by simp
  have k: "map fst (custom_year_rows sample_table) = [(2002, 1, 1), (2002, 1, 2), (2002, 1, 3), (2023, 1, 1)]"
    by (simp add: custom_year_rows_def sample_table_def in_custom_years_def)
  from monthly_stats_depends_on_custom_years_only[OF same m1 m2 sample_table_rows n2]
  show ?thesis
    using same m1 m2 k by (intro conjI) simp_all
qed

section \<open>Grouping keys and completion of the script\<close>

lemma valid_date_month: "valid_date d \<Longrightarrow> 1 \<le> month d \<and> month d \<le> 12"
  by (simp add: valid_date_def)

lemma keys_monthly_stats: "fst ` set (monthly_stats t) = (\<lambda>x. month (fst x)) ` set t"
proof -
  have "map fst (monthly_stats t) = map fst (groupby month t)"
    by (simp add: monthly_stats_def case_prod_unfold comp_def)
  then have "set (map fst (monthly_stats t)) = (\<lambda>x. month (fst x)) ` set t"
    by (simp only: keys_groupby)
  then show ?thesis by simp
qed

lemma keys_annual_stats: "fst ` set (annual_stats df) = (\<lambda>x. year (fst x)) ` set df"
proof -
  have "map fst (annual_stats df) = map fst (groupby year df)"
    by (simp add: annual_stats_def case_prod_unfold comp_def)
  then have "set (map fst (annual_stats df)) = (\<lambda>x. year (fst x)) ` set df"
    by (simp only: keys_groupby)
  then show ?thesis by simp
qed

lemma keys_clim:
  assumes "phase_one df = Inr r"
  shows "fst ` set (clim r) = (\<lambda>x. month (fst x)) ` {x \<in> set df. in_baseline (fst x)}"
proof -
  have "set (map fst (clim r)) = (\<lambda>x. month (fst x)) ` set (filter (\<lambda>x. in_baseline (fst x)) df)"
    unfolding phase_one_Inr(2)[OF assms] keys_frame_mean by (rule keys_groupby)
  then show ?thesis by simp
qed

lemma keys_yearly_means:
  assumes "phase_one df = Inr r"
  shows "fst ` set (yearly_means r) \<subseteq> (\<lambda>x. year (fst x)) ` {x \<in> set df. in_baseline (fst x)}"
proof -
  have "set (yearly_means r) \<subseteq> set (frame_mean (groupby year (filter (\<lambda>x. in_baseline (fst x)) df)))"
    unfolding phase_one_Inr(4)[OF assms] dropna_rows_def by (rule filter_is_subset)
  then have "fst ` set (yearly_means r) \<subseteq> set (map fst (frame_mean (groupby year (filter (\<lambda>x. in_baseline (fst x)) df))))"
    by auto
  also have "\<dots> = (\<lambda>x. year (fst x)) ` set (filter (\<lambda>x. in_baseline (fst x)) df)"
    unfolding keys_frame_mean by (rule keys_groupby)
  finally show ?thesis by simp
qed

text \<open>
  C8. On a table of valid dates every grouping key is a calendar month or year: the index
  of \<open>clim\<close> and of \<open>monthly_stats\<close> holds month numbers from 1 to 12, and the index of
  \<open>yearly_means\<close> and of \<open>annual_stats\<close> holds years of input rows.
\<close>

theorem grouping_keys_are_calendar_months_and_years:
  assumes "\<forall>x \<in> set df. valid_date (fst x)"
    and "phase_one df = Inr r1" and "phase_two df = Inr st"
  shows "(\<forall>m \<in> fst ` set (clim r1). 1 \<le> m \<and> m \<le> 12) \<and>
         (\<forall>m \<in> fst ` set st. 1 \<le> m \<and> m \<le> 12) \<and>
         fst ` set (yearly_means r1) \<subseteq> (\<lambda>x. year (fst x)) ` set df \<and>
         fst ` set (annual_stats df) \<subseteq> (\<lambda>x. year (fst x)) ` set df"
proof -
  have 1: "\<forall>m \<in> fst ` set (clim r1). 1 \<le> m \<and> m \<le> 12"
    unfolding keys_clim[OF assms(2)] using assms(1) valid_date_month by auto
  have 2: "\<forall>m \<in> fst ` set st. 1 \<le> m \<and> m \<le> 12"
    unfolding phase_two_Inr(2)[OF assms(3)] keys_monthly_stats using assms(1) valid_date_month by auto
  have 3: "fst ` set (yearly_means r1) \<subseteq> (\<lambda>x. year (fst x)) ` set df"
    using keys_yearly_means[OF assms(2)] by blast
  have 4: "fst ` set (annual_stats df) \<subseteq> (\<lambda>x. year (fst x)) ` set df"
    unfolding keys_annual_stats by simp
  from 1 2 3 4 show ?thesis by blast
qed

lemma valid_dates_sample_table: "\<forall>x \<in> set sample_table. valid_date (fst x)"
  by (simp add: sample_table_def valid_date_def month_def day_def year_def days_in_month_def is_leap_def)

theorem grouping_keys_are_calendar_months_and_years_witness:
  "\<exists>r1 st. phase_one sample_table = Inr r1 \<and> phase_two sample_table = Inr st \<and>
     list_all (\<lambda>x. valid_date (fst x)) sample_table \<and>
     map fst (clim r1) = [1, 2] \<and> map fst st = [1] \<and>
     map fst (yearly_means r1) = [1991, 1992, 2002] \<and>
     map fst (annual_stats sample_table) = [1990, 1991, 1992, 2002, 2021, 2023]"
proof -
  note v = valid_dates_sample_table
  note r1 = phase_one_sample_table
  have st: "phase_two sample_table = Inr (monthly_stats (filter (\<lambda>x. in_custom_years (fst x)) sample_table))"
    using sorted_sample_table by (rule phase_two_sorted)
  have k2: "map fst (monthly_stats (filter (\<lambda>x. in_custom_years (fst x)) sample_table)) = [1]"
    by (simp add: monthly_stats_def groupby_def sample_table_def in_custom_years_def month_def)
  have k3: "map fst (annual_stats sample_table) = [1990, 1991, 1992, 2002, 2021, 2023]"
    by (simp add: annual_stats_def groupby_def sample_table_def year_def)
  from grouping_keys_are_calendar_months_and_years[OF v r1 st]
  show ?thesis
    using r1 st v k2 k3 by (auto simp: list_all_iff)
qed

lemma script_Inr:
  assumes "script df = Inr (r1, st, cnt)"
  shows "phase_one df = Inr r1" and "phase_two df = Inr st" and "cnt = annual_stats df"
    and "length st = 12"
  using assms by (auto simp: script_def plot_monthly_stats_def split: sum.splits if_splits)

lemma length_monthly_stats: "length (monthly_stats t) = card ((\<lambda>x. month (fst x)) ` set t)"
  by (simp add: monthly_stats_def length_groupby)

lemma twelve_rows_iff_every_month:
  assumes "\<forall>x \<in> set t. valid_date (fst x)"
  shows "length (monthly_stats t) = 12 \<longleftrightarrow> {1..12} \<subseteq> (\<lambda>x. month (fst x)) ` set t"
proof -
  let ?M = "(\<lambda>x. month (fst x)) ` set t"
  have sub: "?M \<subseteq> {1..12}"
    using assms valid_date_month by auto
  have c: "card {1..12::nat} = 12" by simp
  show ?thesis
  proof
    assume "length (monthly_stats t) = 12"
    then have "card ?M = card {1..12::nat}"
      by (simp add: length_monthly_stats)
    with sub have "?M = {1..12}"
      by (intro card_subset_eq) auto
    then show "{1..12} \<subseteq> ?M" by simp
  next
    assume "{1..12} \<subseteq> ?M"
    with sub have "?M = {1..12}" by auto
    then show "length (monthly_stats t) = 12"
      by (simp add: length_monthly_stats)
  qed
qed

lemma script_unsorted: "\<not> sorted (map fst df) \<Longrightarrow> script df = Inl KeyError"
  by (simp add: script_def phase_one_unsorted)

lemma script_empty: "script [] = Inl TypeError"
  by (simp add: script_def phase_one_empty)

lemma script_sorted:
  assumes "sorted (map fst df)" and "df \<noteq> []"
  shows "length (monthly_stats (custom_year_rows df)) = 12 \<Longrightarrow>
           \<exists>r1. script df = Inr (r1, monthly_stats (custom_year_rows df), annual_stats df)"
    and "length (monthly_stats (custom_year_rows df)) \<noteq> 12 \<Longrightarrow> script df = Inl ValueError"
proof -
  obtain r1 where r1: "phase_one df = Inr r1"
    using phase_one_sorted[OF assms] by blast
  have st: "phase_two df = Inr (monthly_stats (custom_year_rows df))"
    unfolding custom_year_rows_def using assms(1) by (rule phase_two_sorted)
  show "length (monthly_stats (custom_year_rows df)) = 12 \<Longrightarrow>
           \<exists>r1. script df = Inr (r1, monthly_stats (custom_year_rows df), annual_stats df)"
    by (simp add: script_def r1 st plot_monthly_stats_def)
  show "length (monthly_stats (custom_year_rows df)) \<noteq> 12 \<Longrightarrow> script df = Inl ValueError"
    by (simp add: script_def r1 st plot_monthly_stats_def)
qed

text \<open>
  C9, as stated, fails in three ways. On a table whose rows are not in date order the
  first date slice raises KeyError. On a table without rows \<open>nlargest\<close> raises TypeError.
  On a table where a calendar month has no row in the custom year set, here a single day
  of 1950, the second figure raises ValueError and phase three is not reached.
\<close>

theorem script_raises_counterexample:
  "script [((2020, 1, 2), \<lparr>tl_mittel = Some 1, tlmin = Some 0, tlmax = Some 2\<rparr>),
           ((2020, 1, 1), \<lparr>tl_mittel = Some 1, tlmin = Some 0, tlmax = Some 2\<rparr>)] = Inl KeyError \<and>
   script [] = Inl TypeError \<and>
   script [((1950, 6, 1), \<lparr>tl_mittel = Some 1, tlmin = Some 0, tlmax = Some 2\<rparr>)] = Inl ValueError"
proof -
  have 1: "script [((2020, 1, 2), \<lparr>tl_mittel = Some 1, tlmin = Some 0, tlmax = Some 2\<rparr>),
           ((2020, 1, 1), \<lparr>tl_mittel = Some 1, tlmin = Some 0, tlmax = Some 2\<rparr>)] = Inl KeyError"
    by (rule script_unsorted) simp
  let ?df = "[((1950, 6, 1), \<lparr>tl_mittel = Some 1, tlmin = Some 0, tlmax = Some 2\<rparr>)] :: date frame"
  have "length (monthly_stats (custom_year_rows ?df)) \<noteq> 12"
    by (simp add: custom_year_rows_def in_custom_years_def monthly_stats_def groupby_def)
  then have 3: "script ?df = Inl ValueError"
    by (intro script_sorted(2)) simp_all
  from 1 script_empty 3 show ?thesis by (intro conjI)
qed

text \<open>
  C9, amended. On a table of valid dates the script completes its three phases exactly
  when the rows are in non-decreasing date order and every calendar month from 1 to 12
  has a row in the custom year set; a baseline window without rows is no obstacle. A
  table not in date order stops at the first date slice with KeyError, a table without
  rows stops at \<open>nlargest\<close> with TypeError, and a table in date order with rows, in which
  some calendar month has no row in the custom year set, stops at the second figure with
  ValueError.
\<close>

theorem script_completes_iff_ordered_and_every_month:
  assumes "\<forall>x \<in> set df. valid_date (fst x)"
  shows "(is_monotonic_increasing (map fst df) \<and>
            {1..12} \<subseteq> (\<lambda>x. month (fst x)) ` set (custom_year_rows df) \<longrightarrow>
            (\<exists>r1. script df = Inr (r1, monthly_stats (custom_year_rows df), annual_stats df))) \<and>
         (\<not> is_monotonic_increasing (map fst df) \<longrightarrow> script df = Inl KeyError) \<and>
         (df = [] \<longrightarrow> script df = Inl TypeError) \<and>
         (is_monotonic_increasing (map fst df) \<and> df \<noteq> [] \<and>
            \<not> {1..12} \<subseteq> (\<lambda>x. month (fst x)) ` set (custom_year_rows df) \<longrightarrow>
            script df = Inl ValueError)"
proof -
  have v: "\<forall>x \<in> set (custom_year_rows df). valid_date (fst x)"
    using assms by (simp add: custom_year_rows_def)
  note t = twelve_rows_iff_every_month[OF v]
  have 1: "\<exists>r1. script df = Inr (r1, monthly_stats (custom_year_rows df), annual_stats df)"
    if "is_monotonic_increasing (map fst df)" and m: "{1..12} \<subseteq> (\<lambda>x. month (fst x)) ` set (custom_year_rows df)"
  proof -
    have "(1::nat) \<in> {1..12}" by simp
    then have "custom_year_rows df \<noteq> []" using m by auto
    then have "df \<noteq> []" by (auto simp: custom_year_rows_def)
    then show ?thesis
      using that t script_sorted(1)[of df] by (simp add: is_monotonic_increasing_def)
  qed
  have 2: "script df = Inl KeyError" if "\<not> is_monotonic_increasing (map fst df)"
    using that script_unsorted by (simp add: is_monotonic_increasing_def)
  have 3: "script df = Inl TypeError" if "df = []"
    using that script_empty by simp
  have 4: "script df = Inl ValueError"
    if "is_monotonic_increasing (map fst df)" "df \<noteq> []"
       "\<not> {1..12} \<subseteq> (\<lambda>x. month (fst x)) ` set (custom_year_rows df)"
    using that t script_sorted(2)[of df] by (simp add: is_monotonic_increasing_def)
  from 1 2 3 4 show ?thesis by blast
qed

lemma twelve_month_table_facts:
  "\<forall>x \<in> set twelve_month_table. valid_date (fst x)"
  "is_monotonic_increasing (map fst twelve_month_table)"
  "custom_year_rows twelve_month_table = twelve_month_table"
  "baseline_rows twelve_month_table = []"
  "(\<lambda>x. month (fst x)) ` set twelve_month_table = {1, 2, 3, 4, 5, 6, 7, 8, 9, 10, 11, 12}"
  "annual_stats twelve_month_table = [(2023, [(''hot_days'', 2), (''tropical_nights'', 1)])]"
  by (simp_all add: twelve_month_table_def valid_date_def month_def day_def year_def days_in_month_def
        is_leap_def is_monotonic_increasing_def custom_year_rows_def in_custom_years_def
        baseline_rows_def in_baseline_def annual_stats_def groupby_def count_ge_def)

theorem script_completes_iff_ordered_and_every_month_witness:
  "list_all (\<lambda>x. valid_date (fst x)) twelve_month_table \<and>
   is_monotonic_increasing (map fst twelve_month_table) \<and>
   (\<lambda>x. month (fst x)) ` set (custom_year_rows twelve_month_table) = {1, 2, 3, 4, 5, 6, 7, 8, 9, 10, 11, 12} \<and>
   baseline_rows twelve_month_table = [] \<and>
   (\<exists>r1. script twelve_month_table =
            Inr (r1, monthly_stats (custom_year_rows twelve_month_table),
                 [(2023, [(''hot_days'', 2), (''tropical_nights'', 1)])]) \<and>
         clim r1 = [] \<and> hottest_years r1 = [])"
proof -
  note f = twelve_month_table_facts
  have m: "{1..12} \<subseteq> (\<lambda>x. month (fst x)) ` set (custom_year_rows twelve_month_table)"
    unfolding f(3) f(5) by (auto, arith)
  from script_completes_iff_ordered_and_every_month[OF f(1)] f(2) m
  obtain r1 where s: "script twelve_month_table =
      Inr (r1, monthly_stats (custom_year_rows twelve_month_table), annual_stats twelve_month_table)"
    by blast
  note p = phase_one_Inr[OF script_Inr(1)[OF s]]
  have b: "filter (\<lambda>x. in_baseline (fst x)) twelve_month_table = []"
    using f(4) by (simp add: baseline_rows_def)
  have c: "clim r1 = []"
    unfolding p(2) b by (simp add: eval_defs)
  have "monthly_means r1 = []"
    unfolding p(3) b by (simp add: eval_defs)
  then have "mean_anom_per_year r1 = []"
    unfolding p(6) p(5) by (simp add: eval_defs)
  then have h: "hottest_years r1 = []"
    unfolding p(7) by (simp add: eval_defs)
  have "list_all (\<lambda>x. valid_date (fst x)) twelve_month_table"
    using f(1) by (simp add: list_all_iff)
  with s c h f show ?thesis
    by (intro conjI exI[of _ r1]) simp_all
qed

section \<open>Phase two: order of the quantiles\<close>

lemma position_floor:
  fixes p :: rat
  assumes "0 \<le> p" and "p \<le> of_nat k"
  shows "nat \<lfloor>p\<rfloor> \<le> k" and "of_nat (nat \<lfloor>p\<rfloor>) \<le> p" and "p - of_nat (nat \<lfloor>p\<rfloor>) < 1"
    and "0 \<le> p - of_nat (nat \<lfloor>p\<rfloor>)"
proof -
  have z: "0 \<le> \<lfloor>p\<rfloor>" using assms(1) by simp
  have "\<lfloor>p\<rfloor> \<le> \<lfloor>of_nat k :: rat\<rfloor>" using assms(2) by (rule floor_mono)
  then have "\<lfloor>p\<rfloor> \<le> int k" by simp
  then show "nat \<lfloor>p\<rfloor> \<le> k" using z by linarith
  have e: "(of_nat (nat \<lfloor>p\<rfloor>) :: rat) = of_int \<lfloor>p\<rfloor>"
    using z by simp
  show "of_nat (nat \<lfloor>p\<rfloor>) \<le> p" unfolding e by (rule of_int_floor_le)
  then show "0 \<le> p - of_nat (nat \<lfloor>p\<rfloor>)" by simp
  show "p - of_nat (nat \<lfloor>p\<rfloor>) < 1" unfolding e by linarith
qed

lemma linear_interpolation_bounds:
  assumes "sorted xs" and "xs \<noteq> []" and "0 \<le> p" and "p \<le> of_nat (length xs - 1)"
  shows "xs ! nat \<lfloor>p\<rfloor> \<le> linear_interpolation xs p"
    and "linear_interpolation xs p \<le> xs ! min (nat \<lfloor>p\<rfloor> + 1) (length xs - 1)"
proof -
  let ?lo = "nat \<lfloor>p\<rfloor>"
  let ?hi = "min (?lo + 1) (length xs - 1)"
  let ?g = "p - of_nat ?lo"
  note f = position_floor[OF assms(3,4)]
  have "?lo \<le> ?hi" using f(1) by simp
  moreover have "?hi < length xs"
  proof -
    have "?hi \<le> length xs - 1" by simp
    moreover have "0 < length xs" using assms(2) by simp
    ultimately show ?thesis by linarith
  qed
  ultimately have d: "xs ! ?lo \<le> xs ! ?hi"
    using assms(1) by (simp add: sorted_nth_mono)
  have v: "linear_interpolation xs p = xs ! ?lo + (xs ! ?hi - xs ! ?lo) * ?g"
    by (simp add: linear_interpolation_def Let_def)
  have "0 \<le> (xs ! ?hi - xs ! ?lo) * ?g"
    using d f(4) by simp
  then show "xs ! ?lo \<le> linear_interpolation xs p"
    unfolding v by simp
  have "(xs ! ?hi - xs ! ?lo) * ?g \<le> (xs ! ?hi - xs ! ?lo) * 1"
    using d f(3) by (intro mult_left_mono) simp_all
  then show "linear_interpolation xs p \<le> xs ! ?hi"
    unfolding v by simp
qed

lemma linear_interpolation_mono:
  assumes "sorted xs" and "xs \<noteq> []" and "0 \<le> p" and "p \<le> p'" and "p' \<le> of_nat (length xs - 1)"
  shows "linear_interpolation xs p \<le> linear_interpolation xs p'"
proof -
  let ?lo = "nat \<lfloor>p\<rfloor>"
  let ?lo' = "nat \<lfloor>p'\<rfloor>"
  have p: "p \<le> of_nat (length xs - 1)" and p': "0 \<le> p'"
    using assms(3,4,5) by auto
  have le: "?lo \<le> ?lo'"
    using assms(4) by (simp add: floor_mono nat_mono)
  note f' = position_floor[OF p' assms(5)]
  show ?thesis
  proof (cases "?lo = ?lo'")
    case True
    let ?hi = "min (?lo + 1) (length xs - 1)"
    have "?lo \<le> ?hi" using position_floor(1)[OF assms(3) p] by simp
    moreover have "?hi < length xs"
  proof -
    have "?hi \<le> length xs - 1" by simp
    moreover have "0 < length xs" using assms(2) by simp
    ultimately show ?thesis by linarith
  qed
    ultimately have d: "0 \<le> xs ! ?hi - xs ! ?lo"
      using assms(1) by (simp add: sorted_nth_mono)
    have "(xs ! ?hi - xs ! ?lo) * (p - of_nat ?lo) \<le> (xs ! ?hi - xs ! ?lo) * (p' - of_nat ?lo)"
      using d assms(4) by (intro mult_left_mono) simp_all
    then show ?thesis
      by (simp add: linear_interpolation_def Let_def True[symmetric])
  next
    case False
    then have "min (?lo + 1) (length xs - 1) \<le> ?lo'" using le by simp
    moreover have "?lo' < length xs" using f'(1) assms(2) by (cases xs) auto
    ultimately have "xs ! min (?lo + 1) (length xs - 1) \<le> xs ! ?lo'"
      using assms(1) by (simp add: sorted_nth_mono)
    then show ?thesis
      using linear_interpolation_bounds(2)[OF assms(1,2,3) p]
            linear_interpolation_bounds(1)[OF assms(1,2) p' assms(5)]
      by linarith
  qed
qed

lemma quantile_mono:
  assumes "dropna vs \<noteq> []" and "0 \<le> q" and "q \<le> q'" and "q' \<le> 1"
  shows "\<exists>a b. quantile q vs = Some a \<and> quantile q' vs = Some b \<and> a \<le> b"
proof -
  let ?xs = "sort (dropna vs)"
  let ?k = "of_nat (length ?xs - 1) :: rat"
  have ne: "?xs \<noteq> []" using assms(1) by (metis length_sort length_0_conv)
  have k: "0 \<le> ?k" by simp
  have 1: "0 \<le> q * ?k" using assms(2) k by simp
  have 2: "q * ?k \<le> q' * ?k" using assms(3) k by (rule mult_right_mono)
  have "q' * ?k \<le> 1 * ?k" using assms(4) k by (rule mult_right_mono)
  then have 3: "q' * ?k \<le> ?k" by simp
  have "linear_interpolation ?xs (q * ?k) \<le> linear_interpolation ?xs (q' * ?k)"
    using sorted_sort ne 1 2 3 by (rule linear_interpolation_mono)
  then show ?thesis
    using ne by (simp add: quantile_def Let_def)
qed

lemma median_is_quantile_half: "median vs = quantile (1 / 2) vs"
proof (cases "dropna vs = []")
  case True
  then show ?thesis by (simp add: median_def quantile_def)
next
  case False
  let ?xs = "sort (dropna vs)"
  let ?n = "length (dropna vs)"
  have n: "0 < ?n" using False by simp
  have len: "length ?xs = ?n" by simp
  show ?thesis
  proof (cases "odd ?n")
    case True
    then obtain k where k: "?n = 2 * k + 1" by (auto elim: oddE)
    have pos: "(1 / 2) * (of_nat (?n - 1) :: rat) = of_nat k"
      unfolding k by simp
    have "linear_interpolation ?xs (of_nat k) = ?xs ! k"
      by (simp add: linear_interpolation_def Let_def)
    moreover have "?n div 2 = k" unfolding k by simp
    ultimately show ?thesis
      using True n unfolding median_def quantile_def Let_def len pos by simp
  next
    case False
    then obtain k where k: "?n = 2 * k" by (auto elim: evenE)
    then have k1: "1 \<le> k" using n by simp
    have "(of_nat (2 * k - 1) :: rat) = 2 * of_nat k - 1"
      using k1 by (simp add: of_nat_diff)
    moreover have "(of_nat (k - 1) :: rat) = of_nat k - 1"
      using k1 by (simp add: of_nat_diff)
    ultimately have pos: "(1 / 2) * (of_nat (?n - 1) :: rat) = of_nat (k - 1) + 1 / 2"
      unfolding k by (simp add: field_simps)
    have fl: "\<lfloor>of_nat (k - 1) + 1 / 2 :: rat\<rfloor> = int (k - 1)"
      by (rule floor_unique) simp_all
    have hi: "min (k - 1 + 1) (?n - 1) = k"
      using k1 unfolding k by simp
    have "linear_interpolation ?xs (of_nat (k - 1) + 1 / 2) = ?xs ! (k - 1) + (?xs ! k - ?xs ! (k - 1)) * (1 / 2)"
      unfolding linear_interpolation_def Let_def fl len using hi by simp
    also have "\<dots> = (?xs ! (k - 1) + ?xs ! k) / 2"
      by (simp add: field_simps)
    finally have li: "linear_interpolation ?xs (of_nat (k - 1) + 1 / 2) = (?xs ! (k - 1) + ?xs ! k) / 2" .
    have "?n div 2 = k" unfolding k by simp
    then show ?thesis
      using False n li unfolding median_def quantile_def Let_def len pos by simp
  qed
qed

text \<open>
  C10, as stated, fails for a month that has custom-year rows but no value in one column:
  the five statistics of that column are missing, and a missing value is not \<open><=\<close> any
  other.
\<close>

theorem monthly_stats_missing_column_counterexample:
  "phase_two [((2002, 1, 1), \<lparr>tl_mittel = Some 1, tlmin = None, tlmax = Some 2\<rparr>)] =
     Inr [(1, [((''tl_mittel'', ''median''), Some 1), ((''tl_mittel'', ''p25''), Some 1),
               ((''tl_mittel'', ''p75''), Some 1), ((''tl_mittel'', ''p10''), Some 1),
               ((''tl_mittel'', ''p90''), Some 1),
               ((''tlmin'', ''median''), None), ((''tlmin'', ''p25''), None),
               ((''tlmin'', ''p75''), None), ((''tlmin'', ''p10''), None),
               ((''tlmin'', ''p90''), None),
               ((''tlmax'', ''median''), Some 2), ((''tlmax'', ''p25''), Some 2),
               ((''tlmax'', ''p75''), Some 2), ((''tlmax'', ''p10''), Some 2),
               ((''tlmax'', ''p90''), Some 2)])] \<and>
   \<not> le_temp None None"
proof -
  let ?df = "[((2002, 1, 1), \<lparr>tl_mittel = Some 1, tlmin = None, tlmax = Some 2\<rparr>)] :: date frame"
  have c: "filter (\<lambda>x. in_custom_years (fst x)) ?df = ?df"
    by (simp add: in_custom_years_def)
  have "sorted (map fst ?df)" by simp
  then have "phase_two ?df = Inr (monthly_stats ?df)"
    using phase_two_sorted[of ?df] unfolding c by blast
  moreover have "monthly_stats ?df =
       [(1, [((''tl_mittel'', ''median''), Some 1), ((''tl_mittel'', ''p25''), Some 1),
               ((''tl_mittel'', ''p75''), Some 1), ((''tl_mittel'', ''p10''), Some 1),
               ((''tl_mittel'', ''p90''), Some 1),
               ((''tlmin'', ''median''), None), ((''tlmin'', ''p25''), None),
               ((''tlmin'', ''p75''), None), ((''tlmin'', ''p10''), None),
               ((''tlmin'', ''p90''), None),
               ((''tlmax'', ''median''), Some 2), ((''tlmax'', ''p25''), Some 2),
               ((''tlmax'', ''p75''), Some 2), ((''tlmax'', ''p10''), Some 2),
               ((''tlmax'', ''p90''), Some 2)])]"
    by (simp add: monthly_stats_def groupby_def month_def stat_labels_def agg_group_def agg_funcs_def
          median_def quantile_def linear_interpolation_def)
  moreover have "\<not> le_temp None None"
    by (simp add: le_temp_def)
  ultimately show ?thesis by simp
qed

text \<open>
  C10, amended. For every calendar month and every temperature column with at least one
  observed value among the custom-year rows of the month, the five statistics are present
  and ordered: p10 <= p25 <= median <= p75 <= p90.
\<close>

theorem monthly_stats_quantiles_are_ordered:
  fixes m :: nat
  assumes "phase_two df = Inr st"
    and "(name, col) \<in> {(''tl_mittel'', tl_mittel), (''tlmin'', tlmin), (''tlmax'', tlmax)}"
    and "dropna (map col (map snd (filter (\<lambda>x. in_custom_years (fst x) \<and> month (fst x) = m) df))) \<noteq> []"
  shows "\<exists>e p10 p25 med p75 p90.
           map_of st m = Some e \<and>
           map_of e (name, ''p10'') = Some p10 \<and> map_of e (name, ''p25'') = Some p25 \<and>
           map_of e (name, ''median'') = Some med \<and>
           map_of e (name, ''p75'') = Some p75 \<and> map_of e (name, ''p90'') = Some p90 \<and>
           le_temp p10 p25 \<and> le_temp p25 med \<and> le_temp med p75 \<and> le_temp p75 p90"
proof -
  let ?rows = "map snd (filter (\<lambda>x. in_custom_years (fst x) \<and> month (fst x) = m) df)"
  let ?vs = "map col ?rows"
  have ne: "?rows \<noteq> []" using assms(3) by auto
  then obtain x where "x \<in> set df" "in_custom_years (fst x)" "month (fst x) = m"
    by (auto simp: filter_empty_conv)
  then have "m \<in> (\<lambda>x. month (fst x)) ` set (filter (\<lambda>x. in_custom_years (fst x)) df)"
    by force
  then have e: "map_of st m = Some (zip stat_labels (agg_group ?rows))"
    by (simp add: phase_two_Inr(2)[OF assms(1)] map_of_monthly_stats filter_month_custom)
  have l: "map_of (zip stat_labels (agg_group ?rows)) (name, ''p10'') = Some (quantile (1/10) ?vs)"
          "map_of (zip stat_labels (agg_group ?rows)) (name, ''p25'') = Some (quantile (1/4) ?vs)"
          "map_of (zip stat_labels (agg_group ?rows)) (name, ''median'') = Some (quantile (1/2) ?vs)"
          "map_of (zip stat_labels (agg_group ?rows)) (name, ''p75'') = Some (quantile (3/4) ?vs)"
          "map_of (zip stat_labels (agg_group ?rows)) (name, ''p90'') = Some (quantile (9/10) ?vs)"
    using assms(2) by (auto simp: stat_labels_lookup median_is_quantile_half[symmetric])
  have o: "le_temp (quantile (1/10) ?vs) (quantile (1/4) ?vs)"
          "le_temp (quantile (1/4) ?vs) (quantile (1/2) ?vs)"
          "le_temp (quantile (1/2) ?vs) (quantile (3/4) ?vs)"
          "le_temp (quantile (3/4) ?vs) (quantile (9/10) ?vs)"
    using quantile_mono[OF assms(3), of "1/10" "1/4"] quantile_mono[OF assms(3), of "1/4" "1/2"]
          quantile_mono[OF assms(3), of "1/2" "3/4"] quantile_mono[OF assms(3), of "3/4" "9/10"]
    by (auto simp: le_temp_def)
  from e l o show ?thesis by blast
qed

theorem monthly_stats_quantiles_are_ordered_witness:
  "\<exists>st e. phase_two sample_table = Inr st \<and>
     dropna (map tlmin (map snd (filter (\<lambda>x. in_custom_years (fst x) \<and> month (fst x) = 1) sample_table))) = [2, 6, 11] \<and>
     map_of st 1 = Some e \<and>
     map_of e (''tlmin'', ''p10'') = Some (Some (14 / 5)) \<and>
     map_of e (''tlmin'', ''p25'') = Some (Some 4) \<and>
     map_of e (''tlmin'', ''median'') = Some (Some 6) \<and>
     map_of e (''tlmin'', ''p75'') = Some (Some (17 / 2)) \<and>
     map_of e (''tlmin'', ''p90'') = Some (Some 10) \<and>
     le_temp (Some (14 / 5)) (Some 4) \<and> le_temp (Some 4) (Some 6) \<and>
     le_temp (Some 6) (Some (17 / 2)) \<and> le_temp (Some (17 / 2)) (Some 10)"
proof -
  let ?e = "zip stat_labels (agg_group (map snd (filter (\<lambda>x. in_custom_years (fst x) \<and> month (fst x) = 1) sample_table)))"
  have st: "phase_two sample_table = Inr (monthly_stats (filter (\<lambda>x. in_custom_years (fst x)) sample_table))"
    using sorted_sample_table by (rule phase_two_sorted)
  have c: "(''tlmin'', tlmin) \<in> {(''tl_mittel'', tl_mittel), (''tlmin'', tlmin), (''tlmax'', tlmax :: cols \<Rightarrow> temp)}"
    by simp
  have d: "dropna (map tlmin (map snd (filter (\<lambda>x. in_custom_years (fst x) \<and> month (fst x) = 1) sample_table))) = [2, 6, 11]"
    unfolding custom_january_sample_table by simp
  then have ne: "dropna (map tlmin (map snd (filter (\<lambda>x. in_custom_years (fst x) \<and> month (fst x) = 1) sample_table))) \<noteq> []"
    by simp
  have q: "quantile (1 / 10) [Some 2, Some 6, None, Some 11] = Some (14 / 5)"
          "quantile (1 / 4) [Some 2, Some 6, None, Some 11] = Some 4"
          "median [Some 2, Some 6, None, Some 11] = Some 6"
          "quantile (3 / 4) [Some 2, Some 6, None, Some 11] = Some (17 / 2)"
          "quantile (9 / 10) [Some 2, Some 6, None, Some 11] = Some 10"
    by code_simp+
  have m: "map_of (monthly_stats (filter (\<lambda>x. in_custom_years (fst x)) sample_table)) 1 = Some ?e"
    by (simp add: map_of_monthly_stats filter_month_custom sample_table_def in_custom_years_def month_def)
  have v: "map_of ?e (''tlmin'', ''p10'') = Some (Some (14 / 5))"
          "map_of ?e (''tlmin'', ''p25'') = Some (Some 4)"
          "map_of ?e (''tlmin'', ''median'') = Some (Some 6)"
          "map_of ?e (''tlmin'', ''p75'') = Some (Some (17 / 2))"
          "map_of ?e (''tlmin'', ''p90'') = Some (Some 10)"
    unfolding stat_labels_lookup custom_january_sample_table by (simp_all add: q)
  from monthly_stats_quantiles_are_ordered[OF st c ne]
  obtain e p10 p25 med p75 p90 where r: "map_of (monthly_stats (filter (\<lambda>x. in_custom_years (fst x)) sample_table)) 1 = Some e"
    "map_of e (''tlmin'', ''p10'') = Some p10" "map_of e (''tlmin'', ''p25'') = Some p25"
    "map_of e (''tlmin'', ''median'') = Some med"
    "map_of e (''tlmin'', ''p75'') = Some p75" "map_of e (''tlmin'', ''p90'') = Some p90"
    "le_temp p10 p25" "le_temp p25 med" "le_temp med p75" "le_temp p75 p90"
    by blast
  from r(1) m have "e = ?e" by simp
  with r v have "le_temp (Some (14 / 5)) (Some 4) \<and> le_temp (Some 4) (Some 6) \<and>
     le_temp (Some 6) (Some (17 / 2)) \<and> le_temp (Some (17 / 2)) (Some 10)"
    by simp
  with st d m v show ?thesis by blast
qed

end
